theory Spec2Isabelle
  imports Complex_Main "HOL-Library.AList"
begin

section \<open>Python values\<close>

text \<open>
  The social platform of \<^verbatim>\<open>src/social_platform.py\<close> keeps all of its state in
  dictionaries, sets and lists of dataclass objects.

  \<^item> A \<^verbatim>\<open>dict\<close> is an association list in insertion order: \<open>map_of d k\<close> is
    \<^verbatim>\<open>d.get(k)\<close>, \<open>AList.update k v d\<close> is \<^verbatim>\<open>d[k] = v\<close> (in place when the key
    is present, appended otherwise), \<open>AList.delete k d\<close> is \<^verbatim>\<open>del d[k]\<close> on a
    present key, and \<open>dict_values d\<close> is \<^verbatim>\<open>d.values()\<close>.
  \<^item> A \<^verbatim>\<open>set\<close> is a list read through \<open>set\<close>. The order of the list stands for the
    iteration order of the set, which Python does not fix; the theorems below are
    about every state, so about every order.
  \<^item> An object held in a dictionary is identified by its key: mutating the object is
    updating the dictionary at that key.
  \<^item> \<^verbatim>\<open>uuid.uuid4()\<close> and \<^verbatim>\<open>time.time()\<close> are outside the program: every
    operation takes the identifiers it generates and the readings of the clock as
    arguments, one argument for each call of \<^verbatim>\<open>time.time()\<close>.
  \<^item> A raised exception is the \<open>Inl\<close> of a sum; the state reached when it was raised
    is returned beside it, since the mutations made before it persist.
  \<^item> Callbacks are functions on an environment \<open>'e\<close>, the state of whoever
    registered them; the list of registered callbacks is the first argument of every
    operation that notifies. An exception in a callback is caught by the caller, so
    a callback is a total function.
\<close>

datatype py_error = KeyError | ValueError

type_synonym ('k, 'v) dict = "('k \<times> 'v) list"

type_synonym 'a pyset = "'a list"

type_synonym timestamp = real

definition dict_values :: "('k, 'v) dict \<Rightarrow> 'v list" where
  "dict_values d = map snd (AList.clearjunk d)"

definition set_add :: "'a \<Rightarrow> 'a pyset \<Rightarrow> 'a pyset" where
  "set_add x s = (if x \<in> set s then s else s @ [x])"

definition set_discard :: "'a \<Rightarrow> 'a pyset \<Rightarrow> 'a pyset" where
  "set_discard x s = removeAll x s"

definition set_len :: "'a pyset \<Rightarrow> nat" where
  "set_len s = length (remdups s)"

definition set_list :: "'a pyset \<Rightarrow> 'a list" where
  "set_list s = remdups s"

text \<open>Truthiness of an \<^verbatim>\<open>Optional[str]\<close>: neither \<^verbatim>\<open>None\<close> nor the empty string.\<close>

definition truthy :: "string option \<Rightarrow> bool" where
  "truthy v = (case v of None \<Rightarrow> False | Some s \<Rightarrow> s \<noteq> [])"

section \<open>Messages\<close>

record Message =
  msg_message_id :: string
  msg_sender_id :: string
  msg_room_id :: "string option"
  msg_recipient_id :: "string option"
  msg_content :: string
  msg_message_type :: string
  msg_attachments :: "(string, string) dict list"
  msg_reactions :: "(string, string list) dict"
  msg_timestamp :: timestamp
  msg_edited_at :: "timestamp option"
  msg_metadata :: "(string, string) dict"

text \<open>
  The \<^verbatim>\<open>message_data\<close> dictionary of \<^verbatim>\<open>send_message\<close>: a key that is absent is
  \<open>None\<close>.
\<close>

record message_data =
  md_sender_id :: "string option"
  md_room_id :: "string option"
  md_recipient_id :: "string option"
  md_content :: "string option"
  md_message_type :: "string option"
  md_attachments :: "(string, string) dict list option"
  md_metadata :: "(string, string) dict option"

record MessageManager =
  messages :: "(string, Message) dict"
  room_messages :: "(string, string list) dict"
  user_messages :: "(string, string list) dict"

type_synonym 'e message_callback = "string \<Rightarrow> Message \<Rightarrow> 'e \<Rightarrow> 'e"

definition notify_message_event ::
  "'e message_callback list \<Rightarrow> string \<Rightarrow> Message \<Rightarrow> 'e \<Rightarrow> 'e" where
  "notify_message_event cbs event_type message env =
     fold (\<lambda>callback e. callback event_type message e) cbs env"

text \<open>\<^verbatim>\<open>index[key].append(message_id)\<close>, the list being created when the key is new.\<close>

definition index_append ::
  "string \<Rightarrow> string \<Rightarrow> (string, string list) dict \<Rightarrow> (string, string list) dict" where
  "index_append key message_id index =
     AList.update key
       ((case map_of index key of None \<Rightarrow> [] | Some ids \<Rightarrow> ids) @ [message_id]) index"

definition send_message ::
  "'e message_callback list \<Rightarrow> string \<Rightarrow> timestamp \<Rightarrow> message_data \<Rightarrow>
     MessageManager \<Rightarrow> 'e \<Rightarrow> (py_error + Message) \<times> MessageManager \<times> 'e" where
  "send_message cbs message_id now message_data mm env =
     (case md_sender_id message_data of
        None \<Rightarrow> (Inl KeyError, mm, env)
      | Some sender \<Rightarrow>
          let message = \<lparr>
                msg_message_id = message_id,
                msg_sender_id = sender,
                msg_room_id = md_room_id message_data,
                msg_recipient_id = md_recipient_id message_data,
                msg_content = (case md_content message_data of None \<Rightarrow> [] | Some c \<Rightarrow> c),
                msg_message_type =
                  (case md_message_type message_data of None \<Rightarrow> ''text'' | Some t \<Rightarrow> t),
                msg_attachments =
                  (case md_attachments message_data of None \<Rightarrow> [] | Some a \<Rightarrow> a),
                msg_reactions = [],
                msg_timestamp = now,
                msg_edited_at = None,
                msg_metadata = (case md_metadata message_data of None \<Rightarrow> [] | Some m \<Rightarrow> m) \<rparr>;
              mm1 = mm\<lparr>messages := AList.update message_id message (messages mm)\<rparr>;
              mm2 = (if truthy (msg_room_id message)
                     then mm1\<lparr>room_messages :=
                            index_append (the (msg_room_id message)) message_id (room_messages mm1)\<rparr>
                     else mm1);
              mm3 = (if truthy (msg_recipient_id message)
                     then mm2\<lparr>user_messages :=
                            index_append (the (msg_recipient_id message)) message_id
                              (user_messages mm2)\<rparr>
                     else mm2)
          in (Inr message, mm3, notify_message_event cbs ''message_sent'' message env))"

definition get_message :: "MessageManager \<Rightarrow> string \<Rightarrow> Message option" where
  "get_message mm message_id = map_of (messages mm) message_id"

definition add_reaction ::
  "'e message_callback list \<Rightarrow> string \<Rightarrow> string \<Rightarrow> string \<Rightarrow>
     MessageManager \<Rightarrow> 'e \<Rightarrow> bool \<times> MessageManager \<times> 'e" where
  "add_reaction cbs message_id user_id emoji mm env =
     (case map_of (messages mm) message_id of
        None \<Rightarrow> (False, mm, env)
      | Some message \<Rightarrow>
          let r1 = (if map_of (msg_reactions message) emoji = None
                    then AList.update emoji [] (msg_reactions message)
                    else msg_reactions message);
              r2 = (if user_id \<notin> set (the (map_of r1 emoji))
                    then AList.update emoji (the (map_of r1 emoji) @ [user_id]) r1
                    else r1);
              message' = message\<lparr>msg_reactions := r2\<rparr>
          in (True,
              mm\<lparr>messages := AList.update message_id message' (messages mm)\<rparr>,
              notify_message_event cbs ''reaction_added'' message' env))"

definition remove_reaction ::
  "'e message_callback list \<Rightarrow> string \<Rightarrow> string \<Rightarrow> string \<Rightarrow>
     MessageManager \<Rightarrow> 'e \<Rightarrow> bool \<times> MessageManager \<times> 'e" where
  "remove_reaction cbs message_id user_id emoji mm env =
     (case map_of (messages mm) message_id of
        None \<Rightarrow> (False, mm, env)
      | Some message \<Rightarrow>
          (case map_of (msg_reactions message) emoji of
             None \<Rightarrow> (False, mm, env)
           | Some reactors \<Rightarrow>
               if user_id \<in> set reactors then
                 let reactors' = remove1 user_id reactors;
                     r1 = AList.update emoji reactors' (msg_reactions message);
                     r2 = (if reactors' = [] then AList.delete emoji r1 else r1);
                     message' = message\<lparr>msg_reactions := r2\<rparr>
                 in (True,
                     mm\<lparr>messages := AList.update message_id message' (messages mm)\<rparr>,
                     notify_message_event cbs ''reaction_removed'' message' env)
               else (False, mm, env)))"

definition edit_message ::
  "'e message_callback list \<Rightarrow> timestamp \<Rightarrow> string \<Rightarrow> string \<Rightarrow> string \<Rightarrow>
     MessageManager \<Rightarrow> 'e \<Rightarrow> bool \<times> MessageManager \<times> 'e" where
  "edit_message cbs now message_id new_content user_id mm env =
     (case map_of (messages mm) message_id of
        None \<Rightarrow> (False, mm, env)
      | Some message \<Rightarrow>
          if msg_sender_id message \<noteq> user_id then (False, mm, env)
          else
            let message' = message\<lparr>msg_content := new_content, msg_edited_at := Some now\<rparr>
            in (True,
                mm\<lparr>messages := AList.update message_id message' (messages mm)\<rparr>,
                notify_message_event cbs ''message_edited'' message' env))"

text \<open>\<^verbatim>\<open>if message_id in index[key]: index[key].remove(message_id)\<close>, for a present key.\<close>

definition index_remove ::
  "string option \<Rightarrow> string \<Rightarrow> (string, string list) dict \<Rightarrow> (string, string list) dict" where
  "index_remove key message_id index =
     (if truthy key then
        (case map_of index (the key) of
           None \<Rightarrow> index
         | Some ids \<Rightarrow>
             if message_id \<in> set ids then AList.update (the key) (remove1 message_id ids) index
             else index)
      else index)"

definition delete_message ::
  "'e message_callback list \<Rightarrow> string \<Rightarrow> string \<Rightarrow>
     MessageManager \<Rightarrow> 'e \<Rightarrow> bool \<times> MessageManager \<times> 'e" where
  "delete_message cbs message_id user_id mm env =
     (case map_of (messages mm) message_id of
        None \<Rightarrow> (False, mm, env)
      | Some message \<Rightarrow>
          if msg_sender_id message \<noteq> user_id then (False, mm, env)
          else
            let mm1 = mm\<lparr>room_messages :=
                        index_remove (msg_room_id message) message_id (room_messages mm)\<rparr>;
                mm2 = mm1\<lparr>user_messages :=
                        index_remove (msg_recipient_id message) message_id (user_messages mm1)\<rparr>;
                mm3 = mm2\<lparr>messages := AList.delete message_id (messages mm2)\<rparr>
            in (True, mm3, notify_message_event cbs ''message_deleted'' message env))"

section \<open>Events\<close>

record SocialEvent =
  ev_event_id :: string
  ev_event_type :: string
  ev_user_id :: string
  ev_room_id :: "string option"
  ev_data :: "(string, string) dict"
  ev_timestamp :: timestamp

text \<open>
  \<^verbatim>\<open>RealtimeManager\<close>. Its \<^verbatim>\<open>event_handlers\<close> dictionary is filled by
  \<^verbatim>\<open>add_event_handler\<close> only, which nothing in the repository calls, and
  \<^verbatim>\<open>_send_notification\<close> prints; neither changes the state below, so
  \<open>emit_event\<close> is the append to the queue.
\<close>

record RealtimeManager =
  user_subscriptions :: "(string, string pyset) dict"
  room_subscriptions :: "(string, string pyset) dict"
  event_queue :: "SocialEvent list"

definition subscribe_user :: "string \<Rightarrow> string list \<Rightarrow> RealtimeManager \<Rightarrow> RealtimeManager" where
  "subscribe_user user_id event_types rt =
     rt\<lparr>user_subscriptions :=
          AList.update user_id
            (fold set_add event_types
               (case map_of (user_subscriptions rt) user_id of None \<Rightarrow> [] | Some ts \<Rightarrow> ts))
            (user_subscriptions rt)\<rparr>"

definition subscribe_to_room :: "string \<Rightarrow> string \<Rightarrow> RealtimeManager \<Rightarrow> RealtimeManager" where
  "subscribe_to_room user_id room_id rt =
     rt\<lparr>room_subscriptions :=
          AList.update room_id
            (set_add user_id
               (case map_of (room_subscriptions rt) room_id of None \<Rightarrow> [] | Some us \<Rightarrow> us))
            (room_subscriptions rt)\<rparr>"

definition unsubscribe_from_room :: "string \<Rightarrow> string \<Rightarrow> RealtimeManager \<Rightarrow> RealtimeManager" where
  "unsubscribe_from_room user_id room_id rt =
     (case map_of (room_subscriptions rt) room_id of
        None \<Rightarrow> rt
      | Some us \<Rightarrow>
          rt\<lparr>room_subscriptions :=
               AList.update room_id (set_discard user_id us) (room_subscriptions rt)\<rparr>)"

definition emit_event :: "SocialEvent \<Rightarrow> RealtimeManager \<Rightarrow> RealtimeManager" where
  "emit_event event rt = rt\<lparr>event_queue := event_queue rt @ [event]\<rparr>"

text \<open>The condition of the loop of \<^verbatim>\<open>get_recent_events\<close>.\<close>

definition event_relevant :: "RealtimeManager \<Rightarrow> string \<Rightarrow> string pyset \<Rightarrow> SocialEvent \<Rightarrow> bool" where
  "event_relevant rt user_id subscriptions event =
     (ev_event_type event \<in> set subscriptions
      \<or> ev_user_id event = user_id
      \<or> (truthy (ev_room_id event)
         \<and> (case map_of (room_subscriptions rt) (the (ev_room_id event)) of
              None \<Rightarrow> False
            | Some us \<Rightarrow> user_id \<in> set us)))"

text \<open>
  The loop itself, over the reversed queue: a relevant event is appended first and the
  length is compared with \<open>limit\<close> afterwards.
\<close>

fun recent_loop ::
  "RealtimeManager \<Rightarrow> string \<Rightarrow> string pyset \<Rightarrow> int \<Rightarrow> SocialEvent list \<Rightarrow> SocialEvent list \<Rightarrow>
     SocialEvent list" where
  "recent_loop rt user_id subscriptions limit [] relevant_events = relevant_events"
| "recent_loop rt user_id subscriptions limit (event # older) relevant_events =
     (if event_relevant rt user_id subscriptions event then
        (if limit \<le> int (length (relevant_events @ [event])) then relevant_events @ [event]
         else recent_loop rt user_id subscriptions limit older (relevant_events @ [event]))
      else recent_loop rt user_id subscriptions limit older relevant_events)"

definition get_recent_events :: "RealtimeManager \<Rightarrow> string \<Rightarrow> int \<Rightarrow> SocialEvent list" where
  "get_recent_events rt user_id limit =
     recent_loop rt user_id
       (case map_of (user_subscriptions rt) user_id of None \<Rightarrow> [] | Some ts \<Rightarrow> ts)
       limit (rev (event_queue rt)) []"

section \<open>Users and sessions\<close>

datatype UserStatus = ONLINE | AWAY | BUSY | INVISIBLE | OFFLINE

datatype PrivacyLevel = PRIVACY_PUBLIC | PRIVACY_FRIENDS | PRIVACY_PRIVATE | PRIVACY_CUSTOM

record UserProfile =
  up_user_id :: string
  up_username :: string
  up_display_name :: string
  up_avatar_url :: "string option"
  up_bio :: "string option"
  up_status :: UserStatus
  up_preferences :: "(string, string) dict"
  up_privacy_settings :: "(string, PrivacyLevel) dict"
  up_interests :: "string list"
  up_achievements :: "(string, string) dict list"
  up_created_at :: timestamp
  up_last_active :: timestamp
  up_hashed_password :: "string option"
  up_metadata :: "(string, string) dict"

record Session =
  ss_user_id :: string
  ss_created_at :: timestamp
  ss_last_activity :: timestamp
  ss_metadata :: "(string, string) dict"

text \<open>The \<^verbatim>\<open>user_data\<close> dictionary of \<^verbatim>\<open>create_user\<close>.\<close>

record user_data =
  ud_user_id :: "string option"
  ud_username :: "string option"
  ud_display_name :: "string option"
  ud_avatar_url :: "string option"
  ud_bio :: "string option"
  ud_preferences :: "(string, string) dict option"
  ud_privacy_settings :: "(string, PrivacyLevel) dict option"
  ud_interests :: "string list option"
  ud_metadata :: "(string, string) dict option"

record UserManager =
  users :: "(string, UserProfile) dict"
  active_sessions :: "(string, Session) dict"

type_synonym 'e presence_callback = "string \<Rightarrow> UserStatus \<Rightarrow> 'e \<Rightarrow> 'e"

definition notify_presence_change ::
  "'e presence_callback list \<Rightarrow> string \<Rightarrow> UserManager \<Rightarrow> 'e \<Rightarrow> 'e" where
  "notify_presence_change cbs user_id um env =
     (case map_of (users um) user_id of
        None \<Rightarrow> env
      | Some user \<Rightarrow> fold (\<lambda>callback e. callback user_id (up_status user) e) cbs env)"

definition set_user_status ::
  "'e presence_callback list \<Rightarrow> timestamp \<Rightarrow> string \<Rightarrow> UserStatus \<Rightarrow>
     UserManager \<Rightarrow> 'e \<Rightarrow> bool \<times> UserManager \<times> 'e" where
  "set_user_status cbs now user_id status um env =
     (case map_of (users um) user_id of
        None \<Rightarrow> (False, um, env)
      | Some user \<Rightarrow>
          let old_status = up_status user;
              um1 = um\<lparr>users :=
                      AList.update user_id (user\<lparr>up_status := status, up_last_active := now\<rparr>)
                        (users um)\<rparr>
          in (True, um1,
              if old_status \<noteq> status then notify_presence_change cbs user_id um1 env else env))"

text \<open>
  \<^verbatim>\<open>create_session\<close> reads the clock three times: for \<^verbatim>\<open>created_at\<close> and for
  \<^verbatim>\<open>last_activity\<close> of the session, and, inside \<^verbatim>\<open>set_user_status\<close>, for
  \<^verbatim>\<open>last_active\<close> of the user. Each reading is an argument of its own, in the order
  of the reads: \<open>t_created\<close>, \<open>t_activity\<close>, \<open>t_status\<close>.
\<close>

definition create_session ::
  "'e presence_callback list \<Rightarrow> string \<Rightarrow> timestamp \<Rightarrow> timestamp \<Rightarrow> timestamp \<Rightarrow> string \<Rightarrow>
     UserManager \<Rightarrow> 'e \<Rightarrow> string \<times> UserManager \<times> 'e" where
  "create_session cbs session_id t_created t_activity t_status user_id um env =
     (let um1 = um\<lparr>active_sessions :=
                   AList.update session_id
                     \<lparr>ss_user_id = user_id, ss_created_at = t_created,
                      ss_last_activity = t_activity, ss_metadata = []\<rparr>
                     (active_sessions um)\<rparr>;
          (_, um2, env2) = set_user_status cbs t_status user_id ONLINE um1 env
      in (session_id, um2, env2))"

definition default_privacy :: "(string, PrivacyLevel) dict" where
  "default_privacy =
     [(''profile'', PRIVACY_PUBLIC), (''status'', PRIVACY_FRIENDS),
      (''activity'', PRIVACY_FRIENDS), (''connections'', PRIVACY_PRIVATE)]"

text \<open>
  \<open>generated_id\<close> is the \<^verbatim>\<open>uuid4\<close> drawn for the default of \<^verbatim>\<open>user_id\<close>,
  \<open>session_id\<close> the one drawn by \<^verbatim>\<open>create_session\<close>. A missing
  \<^verbatim>\<open>username\<close> raises before anything is stored. The clock is read five times: by
  the default factories of \<^verbatim>\<open>created_at\<close> and \<^verbatim>\<open>last_active\<close> of the profile
  (\<open>t_profile\<close>, \<open>t_active\<close>, in the order of the fields), then three times by
  \<^verbatim>\<open>create_session\<close>.
\<close>

definition create_user ::
  "'e presence_callback list \<Rightarrow> string \<Rightarrow> string \<Rightarrow>
     timestamp \<Rightarrow> timestamp \<Rightarrow> timestamp \<Rightarrow> timestamp \<Rightarrow> timestamp \<Rightarrow> user_data \<Rightarrow>
     UserManager \<Rightarrow> 'e \<Rightarrow> (py_error + UserProfile) \<times> UserManager \<times> 'e" where
  "create_user cbs generated_id session_id t_profile t_active t_created t_activity t_status
       user_data um env =
     (let user_id = (case ud_user_id user_data of None \<Rightarrow> generated_id | Some i \<Rightarrow> i)
      in case ud_username user_data of
           None \<Rightarrow> (Inl KeyError, um, env)
         | Some username \<Rightarrow>
             let user_profile = \<lparr>
                   up_user_id = user_id,
                   up_username = username,
                   up_display_name =
                     (case ud_display_name user_data of None \<Rightarrow> username | Some d \<Rightarrow> d),
                   up_avatar_url = ud_avatar_url user_data,
                   up_bio = ud_bio user_data,
                   up_status = ONLINE,
                   up_preferences =
                     (case ud_preferences user_data of None \<Rightarrow> [] | Some p \<Rightarrow> p),
                   up_privacy_settings =
                     (case ud_privacy_settings user_data of
                        None \<Rightarrow> default_privacy | Some p \<Rightarrow> p),
                   up_interests = (case ud_interests user_data of None \<Rightarrow> [] | Some i \<Rightarrow> i),
                   up_achievements = [],
                   up_created_at = t_profile,
                   up_last_active = t_active,
                   up_hashed_password = None,
                   up_metadata = (case ud_metadata user_data of None \<Rightarrow> [] | Some m \<Rightarrow> m) \<rparr>;
                 um1 = um\<lparr>users := AList.update user_id user_profile (users um)\<rparr>;
                 (_, um2, env2) =
                   create_session cbs session_id t_created t_activity t_status user_id um1 env
             in (case map_of (users um2) user_id of
                   None \<Rightarrow> (Inr user_profile, um2, env2)
                 | Some stored \<Rightarrow> (Inr stored, um2, env2)))"

definition get_user :: "UserManager \<Rightarrow> string \<Rightarrow> UserProfile option" where
  "get_user um user_id = map_of (users um) user_id"




text \<open>
  \<open>sessions_of\<close> is the list \<^verbatim>\<open>[s for s in active_sessions.values() if s["user_id"] == user_id]\<close>.
\<close>

definition sessions_of :: "UserManager \<Rightarrow> string \<Rightarrow> Session list" where
  "sessions_of um user_id = filter (\<lambda>s. ss_user_id s = user_id) (dict_values (active_sessions um))"

definition end_session ::
  "'e presence_callback list \<Rightarrow> timestamp \<Rightarrow> string \<Rightarrow>
     UserManager \<Rightarrow> 'e \<Rightarrow> bool \<times> UserManager \<times> 'e" where
  "end_session cbs now session_id um env =
     (case map_of (active_sessions um) session_id of
        None \<Rightarrow> (False, um, env)
      | Some session \<Rightarrow>
          let user_id = ss_user_id session;
              um1 = um\<lparr>active_sessions := AList.delete session_id (active_sessions um)\<rparr>
          in if sessions_of um1 user_id = [] then
               (let (_, um2, env2) = set_user_status cbs now user_id OFFLINE um1 env
                in (True, um2, env2))
             else (True, um1, env))"

section \<open>Connections\<close>

datatype ConnectionType = FRIEND | FOLLOWER | FOLLOWING | BLOCKED | MUTUAL

record SocialConnection =
  sc_connection_id :: string
  sc_user_id :: string
  sc_target_user_id :: string
  sc_connection_type :: ConnectionType
  sc_created_at :: timestamp
  sc_strength :: real
  sc_mutual :: bool
  sc_metadata :: "(string, string) dict"

record ConnectionManager =
  connections :: "(string, SocialConnection) dict"
  user_connections :: "(string, string pyset) dict"






section \<open>Rooms\<close>

datatype RoomType = PUBLIC | PRIVATE | INVITE_ONLY | TEMPORARY

record SocialRoom =
  sr_room_id :: string
  sr_name :: string
  sr_description :: string
  sr_room_type :: RoomType
  sr_owner_id :: string
  sr_capacity :: int
  sr_current_users :: "string pyset"
  sr_moderators :: "string pyset"
  sr_settings :: "(string, string) dict"
  sr_created_at :: timestamp
  sr_tags :: "string list"
  sr_metadata :: "(string, string) dict"

text \<open>The \<^verbatim>\<open>room_data\<close> dictionary of \<^verbatim>\<open>create_room\<close>.\<close>

record room_data =
  rd_room_id :: "string option"
  rd_name :: "string option"
  rd_description :: "string option"
  rd_room_type :: "string option"
  rd_owner_id :: "string option"
  rd_capacity :: "int option"
  rd_settings :: "(string, string) dict option"
  rd_tags :: "string list option"
  rd_metadata :: "(string, string) dict option"

record RoomManager =
  rooms :: "(string, SocialRoom) dict"
  user_rooms :: "(string, string pyset) dict"

type_synonym 'e room_callback = "string \<Rightarrow> string \<Rightarrow> string \<Rightarrow> 'e \<Rightarrow> 'e"

text \<open>\<^verbatim>\<open>RoomType(value)\<close>: the member with that value, \<^verbatim>\<open>ValueError\<close> when there is none.\<close>

definition RoomType_of :: "string \<Rightarrow> RoomType option" where
  "RoomType_of v =
     (if v = ''public'' then Some PUBLIC
      else if v = ''private'' then Some PRIVATE
      else if v = ''invite_only'' then Some INVITE_ONLY
      else if v = ''temporary'' then Some TEMPORARY
      else None)"

definition create_room ::
  "string \<Rightarrow> timestamp \<Rightarrow> room_data \<Rightarrow> RoomManager \<Rightarrow> (py_error + SocialRoom) \<times> RoomManager" where
  "create_room generated_id now room_data rm =
     (let room_id = (case rd_room_id room_data of None \<Rightarrow> generated_id | Some i \<Rightarrow> i)
      in case rd_name room_data of
           None \<Rightarrow> (Inl KeyError, rm)
         | Some name \<Rightarrow>
             (case RoomType_of
                     (case rd_room_type room_data of None \<Rightarrow> ''public'' | Some t \<Rightarrow> t) of
                None \<Rightarrow> (Inl ValueError, rm)
              | Some room_type \<Rightarrow>
                  (case rd_owner_id room_data of
                     None \<Rightarrow> (Inl KeyError, rm)
                   | Some owner \<Rightarrow>
                       let room = \<lparr>
                             sr_room_id = room_id,
                             sr_name = name,
                             sr_description =
                               (case rd_description room_data of None \<Rightarrow> [] | Some d \<Rightarrow> d),
                             sr_room_type = room_type,
                             sr_owner_id = owner,
                             sr_capacity =
                               (case rd_capacity room_data of None \<Rightarrow> 50 | Some c \<Rightarrow> c),
                             sr_current_users = [],
                             sr_moderators = set_add owner [],
                             sr_settings =
                               (case rd_settings room_data of None \<Rightarrow> [] | Some s \<Rightarrow> s),
                             sr_created_at = now,
                             sr_tags = (case rd_tags room_data of None \<Rightarrow> [] | Some t \<Rightarrow> t),
                             sr_metadata =
                               (case rd_metadata room_data of None \<Rightarrow> [] | Some m \<Rightarrow> m) \<rparr>
                       in (Inr room, rm\<lparr>rooms := AList.update room_id room (rooms rm)\<rparr>))))"

definition get_room :: "RoomManager \<Rightarrow> string \<Rightarrow> SocialRoom option" where
  "get_room rm room_id = map_of (rooms rm) room_id"

definition notify_room_event ::
  "'e room_callback list \<Rightarrow> string \<Rightarrow> string \<Rightarrow> string \<Rightarrow> 'e \<Rightarrow> 'e" where
  "notify_room_event cbs event_type room_id user_id env =
     fold (\<lambda>callback e. callback event_type room_id user_id e) cbs env"

definition join_room ::
  "'e room_callback list \<Rightarrow> string \<Rightarrow> string \<Rightarrow> RoomManager \<Rightarrow> 'e \<Rightarrow>
     bool \<times> RoomManager \<times> 'e" where
  "join_room cbs room_id user_id rm env =
     (case map_of (rooms rm) room_id of
        None \<Rightarrow> (False, rm, env)
      | Some room \<Rightarrow>
          if sr_capacity room \<le> int (set_len (sr_current_users room)) then (False, rm, env)
          else
            let room' = room\<lparr>sr_current_users := set_add user_id (sr_current_users room)\<rparr>;
                rm1 = rm\<lparr>rooms := AList.update room_id room' (rooms rm)\<rparr>;
                rm2 = rm1\<lparr>user_rooms :=
                        AList.update user_id
                          (set_add room_id
                             (case map_of (user_rooms rm1) user_id of
                                None \<Rightarrow> [] | Some rs \<Rightarrow> rs))
                          (user_rooms rm1)\<rparr>
            in (True, rm2, notify_room_event cbs ''user_joined'' room_id user_id env))"

text \<open>
  \<open>room_members\<close> is \<^verbatim>\<open>list(room.current_users)\<close> of the room stored under an
  identifier, empty when there is none; it bounds the loop of \<^verbatim>\<open>delete_room\<close>.
\<close>

definition room_members :: "RoomManager \<Rightarrow> string \<Rightarrow> string list" where
  "room_members rm room_id =
     (case map_of (rooms rm) room_id of
        None \<Rightarrow> []
      | Some room \<Rightarrow> set_list (sr_current_users room))"

text \<open>
  \<^verbatim>\<open>leave_room\<close> and \<^verbatim>\<open>delete_room\<close> call each other: \<^verbatim>\<open>leave_room\<close> deletes a
  temporary room that it has emptied, \<^verbatim>\<open>delete_room\<close> makes every member of its
  snapshot leave (\<open>leave_each\<close> is that loop) and then executes
  \<^verbatim>\<open>del self.rooms[room_id]\<close>, which raises \<^verbatim>\<open>KeyError\<close> on a missing key.
\<close>

function
  leave_room ::
    "'e room_callback list \<Rightarrow> string \<Rightarrow> string \<Rightarrow> RoomManager \<Rightarrow> 'e \<Rightarrow>
       (py_error + bool) \<times> RoomManager \<times> 'e"
and delete_room ::
    "'e room_callback list \<Rightarrow> string \<Rightarrow> RoomManager \<Rightarrow> 'e \<Rightarrow>
       (py_error + bool) \<times> RoomManager \<times> 'e"
and leave_each ::
    "'e room_callback list \<Rightarrow> string \<Rightarrow> string list \<Rightarrow> RoomManager \<Rightarrow> 'e \<Rightarrow>
       py_error option \<times> RoomManager \<times> 'e"
where
  "leave_room cbs room_id user_id rm env =
     (case map_of (rooms rm) room_id of
        None \<Rightarrow> (Inr False, rm, env)
      | Some room \<Rightarrow>
          if user_id \<notin> set (sr_current_users room) then (Inr False, rm, env)
          else
            let room' = room\<lparr>sr_current_users := set_discard user_id (sr_current_users room),
                             sr_moderators := set_discard user_id (sr_moderators room)\<rparr>;
                rm1 = rm\<lparr>rooms := AList.update room_id room' (rooms rm)\<rparr>;
                rm2 = (case map_of (user_rooms rm1) user_id of
                         None \<Rightarrow> rm1
                       | Some rs \<Rightarrow>
                           rm1\<lparr>user_rooms :=
                                 AList.update user_id (set_discard room_id rs) (user_rooms rm1)\<rparr>);
                env1 = notify_room_event cbs ''user_left'' room_id user_id env
            in if sr_room_type room' = TEMPORARY \<and> set_len (sr_current_users room') = 0
               then (case delete_room cbs room_id rm2 env1 of
                       (Inl err, rm3, env2) \<Rightarrow> (Inl err, rm3, env2)
                     | (Inr _, rm3, env2) \<Rightarrow> (Inr True, rm3, env2))
               else (Inr True, rm2, env1))"
| "delete_room cbs room_id rm env =
     (case map_of (rooms rm) room_id of
        None \<Rightarrow> (Inr False, rm, env)
      | Some room \<Rightarrow>
          (case leave_each cbs room_id (set_list (sr_current_users room)) rm env of
             (Some err, rm1, env1) \<Rightarrow> (Inl err, rm1, env1)
           | (None, rm1, env1) \<Rightarrow>
               if map_of (rooms rm1) room_id = None then (Inl KeyError, rm1, env1)
               else (Inr True, rm1\<lparr>rooms := AList.delete room_id (rooms rm1)\<rparr>, env1)))"
| "leave_each cbs room_id [] rm env = (None, rm, env)"
| "leave_each cbs room_id (user_id # rest) rm env =
     (case leave_room cbs room_id user_id rm env of
        (Inl err, rm1, env1) \<Rightarrow> (Some err, rm1, env1)
      | (Inr _, rm1, env1) \<Rightarrow> leave_each cbs room_id rest rm1 env1)"
  by pat_completeness auto

termination
  apply (relation "measure (\<lambda>call. case call of
           Inl (cbs, room_id, user_id, rm, env) \<Rightarrow> 3
         | Inr (Inl (cbs, room_id, rm, env)) \<Rightarrow> 3 * length (room_members rm room_id) + 2
         | Inr (Inr (cbs, room_id, members, rm, env)) \<Rightarrow> 3 * length members + 1)")
  apply (auto simp: room_members_def update_conv' set_len_def set_list_def split: option.splits)
  done

declare leave_room.simps [simp del] delete_room.simps [simp del]

section \<open>The facade\<close>

record SocialPlatform =
  user_manager :: UserManager
  connection_manager :: ConnectionManager
  room_manager :: RoomManager
  message_manager :: MessageManager
  realtime_manager :: RealtimeManager

text \<open>\<^verbatim>\<open>SocialPlatform()\<close>: five empty managers.\<close>

definition new_platform :: SocialPlatform where
  "new_platform = \<lparr>
     user_manager = \<lparr>users = [], active_sessions = []\<rparr>,
     connection_manager = \<lparr>connections = [], user_connections = []\<rparr>,
     room_manager = \<lparr>rooms = [], user_rooms = []\<rparr>,
     message_manager = \<lparr>messages = [], room_messages = [], user_messages = []\<rparr>,
     realtime_manager = \<lparr>user_subscriptions = [], room_subscriptions = [], event_queue = []\<rparr> \<rparr>"

text \<open>
  The callbacks that \<^verbatim>\<open>_setup_callbacks\<close> registers, one per manager; their
  environment is the \<^verbatim>\<open>RealtimeManager\<close>. \<open>event_id\<close> is the \<^verbatim>\<open>uuid4\<close> drawn for
  the event.
\<close>

definition on_presence_change ::
  "string \<Rightarrow> timestamp \<Rightarrow> RealtimeManager presence_callback" where
  "on_presence_change event_id now user_id status rt =
     emit_event \<lparr>
       ev_event_id = event_id,
       ev_event_type = ''user_presence_changed'',
       ev_user_id = user_id,
       ev_room_id = None,
       ev_data = [(''status'',
          (case status of ONLINE \<Rightarrow> ''online'' | AWAY \<Rightarrow> ''away'' | BUSY \<Rightarrow> ''busy''
           | INVISIBLE \<Rightarrow> ''invisible'' | OFFLINE \<Rightarrow> ''offline''))],
       ev_timestamp = now \<rparr> rt"

definition on_room_event :: "string \<Rightarrow> timestamp \<Rightarrow> RealtimeManager room_callback" where
  "on_room_event event_id now event_type room_id user_id rt =
     emit_event \<lparr>
       ev_event_id = event_id,
       ev_event_type = ''room_'' @ event_type,
       ev_user_id = user_id,
       ev_room_id = Some room_id,
       ev_data = [],
       ev_timestamp = now \<rparr> rt"

definition on_message_event :: "string \<Rightarrow> timestamp \<Rightarrow> RealtimeManager message_callback" where
  "on_message_event event_id now event_type message rt =
     emit_event \<lparr>
       ev_event_id = event_id,
       ev_event_type = ''message_'' @ event_type,
       ev_user_id = msg_sender_id message,
       ev_room_id = msg_room_id message,
       ev_data = [(''message_id'', msg_message_id message),
                  (''content'', msg_content message),
                  (''message_type'', msg_message_type message)],
       ev_timestamp = now \<rparr> rt"

text \<open>
  \<^verbatim>\<open>SocialPlatform.send_message\<close>: the response carries the identifier, sender,
  content and timestamp of the stored message; an exception of the store propagates.
  \<open>now\<close> is the clock reading for the timestamp of the message, \<open>event_now\<close> the
  later one for the timestamp of the event.
\<close>

definition platform_send_message ::
  "string \<Rightarrow> string \<Rightarrow> timestamp \<Rightarrow> timestamp \<Rightarrow> message_data \<Rightarrow> SocialPlatform \<Rightarrow>
     (py_error + bool \<times> string \<times> string \<times> string \<times> timestamp) \<times> SocialPlatform" where
  "platform_send_message message_id event_id now event_now message_data pf =
     (case send_message [on_message_event event_id event_now] message_id now message_data
             (message_manager pf) (realtime_manager pf) of
        (Inl err, mm, rt) \<Rightarrow> (Inl err, pf\<lparr>message_manager := mm, realtime_manager := rt\<rparr>)
      | (Inr message, mm, rt) \<Rightarrow>
          (Inr (True, msg_message_id message, msg_sender_id message, msg_content message,
                msg_timestamp message),
           pf\<lparr>message_manager := mm, realtime_manager := rt\<rparr>))"

text \<open>\<^verbatim>\<open>SocialPlatform.join_room\<close>: a successful join subscribes the user to the room.\<close>

definition platform_join_room ::
  "string \<Rightarrow> timestamp \<Rightarrow> string \<Rightarrow> string \<Rightarrow> SocialPlatform \<Rightarrow> bool \<times> SocialPlatform" where
  "platform_join_room event_id now room_id user_id pf =
     (case join_room [on_room_event event_id now] room_id user_id
             (room_manager pf) (realtime_manager pf) of
        (success, rm, rt) \<Rightarrow>
          (success,
           pf\<lparr>room_manager := rm,
              realtime_manager := (if success then subscribe_to_room user_id room_id rt else rt)\<rparr>))"

section \<open>Notions used in the statements\<close>

text \<open>
  A sequence of calls of \<^verbatim>\<open>create_room\<close>, \<^verbatim>\<open>join_room\<close> and \<^verbatim>\<open>leave_room\<close>, run
  from left to right; the results of the calls are dropped, the state is kept. A call
  of \<^verbatim>\<open>create_room\<close> comes with the identifier and the clock reading that it draws.
\<close>

datatype room_op =
    Create string timestamp room_data
  | Join string string
  | Leave string string

fun run_room_ops ::
  "'e room_callback list \<Rightarrow> room_op list \<Rightarrow> RoomManager \<Rightarrow> 'e \<Rightarrow> RoomManager \<times> 'e" where
  "run_room_ops cbs [] rm env = (rm, env)"
| "run_room_ops cbs (Create generated_id now room_data # ops) rm env =
     run_room_ops cbs ops (snd (create_room generated_id now room_data rm)) env"
| "run_room_ops cbs (Join room_id user_id # ops) rm env =
     (case join_room cbs room_id user_id rm env of
        (_, rm1, env1) \<Rightarrow> run_room_ops cbs ops rm1 env1)"
| "run_room_ops cbs (Leave room_id user_id # ops) rm env =
     (case leave_room cbs room_id user_id rm env of
        (_, rm1, env1) \<Rightarrow> run_room_ops cbs ops rm1 env1)"

text \<open>Every room of the directory holds at most as many members as its capacity.\<close>

definition capacity_respected :: "RoomManager \<Rightarrow> bool" where
  "capacity_respected rm =
     list_all (\<lambda>room. int (set_len (sr_current_users room)) \<le> sr_capacity room)
       (dict_values (rooms rm))"

text \<open>The capacity that a call of \<^verbatim>\<open>create_room\<close> gives to its room is not negative.\<close>

fun capacity_not_negative :: "room_op \<Rightarrow> bool" where
  "capacity_not_negative (Create generated_id now room_data) =
     (case rd_capacity room_data of None \<Rightarrow> True | Some c \<Rightarrow> 0 \<le> c)"
| "capacity_not_negative (Join room_id user_id) = True"
| "capacity_not_negative (Leave room_id user_id) = True"

text \<open>The rooms of the second directory have the capacity they have in the first.\<close>

definition capacities_kept :: "RoomManager \<Rightarrow> RoomManager \<Rightarrow> bool" where
  "capacities_kept rm rm' =
     list_all
       (\<lambda>(room_id, room').
          case map_of (rooms rm) room_id of
            None \<Rightarrow> False
          | Some room \<Rightarrow> sr_capacity room' = sr_capacity room)
       (AList.clearjunk (rooms rm'))"

text \<open>
  What \<^verbatim>\<open>leave_room\<close> makes of the room record and of the index of the users' rooms.
\<close>

definition without_member :: "string \<Rightarrow> SocialRoom \<Rightarrow> SocialRoom" where
  "without_member u room =
     room\<lparr>sr_current_users := set_discard u (sr_current_users room),
          sr_moderators := set_discard u (sr_moderators room)\<rparr>"

definition unindex_room ::
  "string \<Rightarrow> string \<Rightarrow> (string, string pyset) dict \<Rightarrow> (string, string pyset) dict" where
  "unindex_room rid u index =
     (case map_of index u of None \<Rightarrow> index | Some rs \<Rightarrow> AList.update u (set_discard rid rs) index)"

text \<open>
  A session other than \<open>session_id\<close> references the user: what is left to the user
  when \<open>session_id\<close> ends.
\<close>

definition has_other_session :: "UserManager \<Rightarrow> string \<Rightarrow> string \<Rightarrow> bool" where
  "has_other_session um session_id user_id =
     (\<exists>(k, s) \<in> set (AList.clearjunk (active_sessions um)).
        k \<noteq> session_id \<and> ss_user_id s = user_id)"











section \<open>Example states\<close>

definition empty_store :: MessageManager where
  "empty_store = \<lparr>messages = [], room_messages = [], user_messages = []\<rparr>"

definition demo_store :: MessageManager where
  "demo_store =
     fst (snd (send_message ([] :: unit message_callback list) ''m1'' 10
       \<lparr>md_sender_id = Some ''alice'', md_room_id = Some ''r1'', md_recipient_id = None,
        md_content = Some ''hello'', md_message_type = None, md_attachments = None,
        md_metadata = None\<rparr> empty_store ()))"

definition demo_message :: Message where
  "demo_message = \<lparr>msg_message_id = ''m1'', msg_sender_id = ''alice'', msg_room_id = Some ''r1'',
     msg_recipient_id = None, msg_content = ''hello'', msg_message_type = ''text'',
     msg_attachments = [], msg_reactions = [], msg_timestamp = 10, msg_edited_at = None,
     msg_metadata = []\<rparr>"

definition empty_rooms :: RoomManager where
  "empty_rooms = \<lparr>rooms = [], user_rooms = []\<rparr>"

definition lobby_data :: room_data where
  "lobby_data = \<lparr>rd_room_id = Some ''r1'', rd_name = Some ''lobby'', rd_description = None,
     rd_room_type = Some ''temporary'', rd_owner_id = Some ''alice'', rd_capacity = Some 1,
     rd_settings = None, rd_tags = None, rd_metadata = None\<rparr>"

definition lobby :: SocialRoom where
  "lobby = \<lparr>sr_room_id = ''r1'', sr_name = ''lobby'', sr_description = [],
     sr_room_type = TEMPORARY, sr_owner_id = ''alice'', sr_capacity = 1,
     sr_current_users = [''alice''], sr_moderators = [''alice''], sr_settings = [],
     sr_created_at = 1, sr_tags = [], sr_metadata = []\<rparr>"

text \<open>A temporary room of capacity 1 created by alice, before and after she has joined it.\<close>

definition created_rooms :: RoomManager where
  "created_rooms = snd (create_room ''g1'' 1 lobby_data empty_rooms)"

definition lobby_rooms :: RoomManager where
  "lobby_rooms =
     fst (snd (join_room ([] :: unit room_callback list) ''r1'' ''alice'' created_rooms ()))"

text \<open>
  A public room of capacity 2 that alice and bob join, carol tries to join and alice
  leaves; and a room created with the capacity -1.
\<close>

definition hall_data :: room_data where
  "hall_data = \<lparr>rd_room_id = Some ''r2'', rd_name = Some ''hall'', rd_description = None,
     rd_room_type = None, rd_owner_id = Some ''alice'', rd_capacity = Some 2,
     rd_settings = None, rd_tags = None, rd_metadata = None\<rparr>"

definition hall :: SocialRoom where
  "hall = \<lparr>sr_room_id = ''r2'', sr_name = ''hall'', sr_description = [],
     sr_room_type = PUBLIC, sr_owner_id = ''alice'', sr_capacity = 2,
     sr_current_users = [''alice'', ''bob''], sr_moderators = [''alice''], sr_settings = [],
     sr_created_at = 1, sr_tags = [], sr_metadata = []\<rparr>"

definition hall_ops :: "room_op list" where
  "hall_ops = [Create ''g2'' 1 hall_data, Join ''r2'' ''alice'', Join ''r2'' ''bob'',
     Join ''r2'' ''carol'', Leave ''r2'' ''alice'']"

definition full_hall :: RoomManager where
  "full_hall = fst (run_room_ops ([] :: unit room_callback list) (take 3 hall_ops) empty_rooms ())"

definition cellar_data :: room_data where
  "cellar_data = \<lparr>rd_room_id = Some ''r0'', rd_name = Some ''cellar'', rd_description = None,
     rd_room_type = None, rd_owner_id = Some ''alice'', rd_capacity = Some (- 1),
     rd_settings = None, rd_tags = None, rd_metadata = None\<rparr>"

definition cellar :: SocialRoom where
  "cellar = \<lparr>sr_room_id = ''r0'', sr_name = ''cellar'', sr_description = [],
     sr_room_type = PUBLIC, sr_owner_id = ''alice'', sr_capacity = - 1,
     sr_current_users = [], sr_moderators = [''alice''], sr_settings = [],
     sr_created_at = 1, sr_tags = [], sr_metadata = []\<rparr>"

definition cellar_rooms :: RoomManager where
  "cellar_rooms = snd (create_room ''g0'' 1 cellar_data empty_rooms)"

text \<open>
  A directory with the user alice registered (one session), the same after a second
  login, and registration data that reuse her identifier, with and without a username.
\<close>

definition empty_users :: UserManager where
  "empty_users = \<lparr>users = [], active_sessions = []\<rparr>"

definition alice_data :: user_data where
  "alice_data = \<lparr>ud_user_id = Some ''alice'', ud_username = Some ''alice_wonder'',
     ud_display_name = Some ''Alice'', ud_avatar_url = None, ud_bio = None,
     ud_preferences = None, ud_privacy_settings = None, ud_interests = None,
     ud_metadata = None\<rparr>"

definition alice_profile :: UserProfile where
  "alice_profile = \<lparr>up_user_id = ''alice'', up_username = ''alice_wonder'',
     up_display_name = ''Alice'', up_avatar_url = None, up_bio = None, up_status = ONLINE,
     up_preferences = [], up_privacy_settings = default_privacy, up_interests = [],
     up_achievements = [], up_created_at = 1, up_last_active = 1, up_hashed_password = None,
     up_metadata = []\<rparr>"

definition alice_session :: "timestamp \<Rightarrow> Session" where
  "alice_session t = \<lparr>ss_user_id = ''alice'', ss_created_at = t, ss_last_activity = t,
     ss_metadata = []\<rparr>"

definition alice_users :: UserManager where
  "alice_users =
     fst (snd (create_user ([] :: unit presence_callback list) ''g1'' ''s1'' 1 1 1 1 1
       alice_data empty_users ()))"

definition alice_twice :: UserManager where
  "alice_twice =
     fst (snd (create_session ([] :: unit presence_callback list) ''s2'' 2 2 2 ''alice''
       alice_users ()))"



text \<open>
  A fresh platform on which a user has subscribed to a room, and the data of a text
  message sent to a room.
\<close>

definition subscribed_platform :: "string \<Rightarrow> string \<Rightarrow> SocialPlatform" where
  "subscribed_platform user_id room_id =
     new_platform\<lparr>realtime_manager :=
       subscribe_to_room user_id room_id (realtime_manager new_platform)\<rparr>"

definition room_message :: "string \<Rightarrow> string \<Rightarrow> string \<Rightarrow> message_data" where
  "room_message sender room_id text =
     \<lparr>md_sender_id = Some sender, md_room_id = Some room_id, md_recipient_id = None,
      md_content = Some text, md_message_type = None, md_attachments = None,
      md_metadata = None\<rparr>"









section \<open>Dictionaries\<close>

lemma in_clearjunk_iff: "(k, v) \<in> set (AList.clearjunk al) \<longleftrightarrow> map_of al k = Some v"
  using map_of_eq_Some_iff [of "AList.clearjunk al" k v]
  by (simp add: map_of_clearjunk)

lemma dict_values_iff: "v \<in> set (dict_values d) \<longleftrightarrow> (\<exists>k. map_of d k = Some v)"
proof
  assume "v \<in> set (dict_values d)"
  then obtain k where "(k, v) \<in> set (AList.clearjunk d)"
    by (auto simp: dict_values_def)
  then show "\<exists>k. map_of d k = Some v"
    by (auto simp: in_clearjunk_iff)
next
  assume "\<exists>k. map_of d k = Some v"
  then obtain k where "(k, v) \<in> set (AList.clearjunk d)"
    by (auto simp: in_clearjunk_iff)
  then show "v \<in> set (dict_values d)"
    by (force simp: dict_values_def)
qed

lemma capacity_respected_iff:
  "capacity_respected rm \<longleftrightarrow>
     (\<forall>room_id room. map_of (rooms rm) room_id = Some room \<longrightarrow>
        int (set_len (sr_current_users room)) \<le> sr_capacity room)"
  by (auto simp: capacity_respected_def list_all_iff dict_values_iff)

lemma capacities_kept_iff:
  "capacities_kept rm rm' \<longleftrightarrow>
     (\<forall>room_id room'. map_of (rooms rm') room_id = Some room' \<longrightarrow>
        (\<exists>room. map_of (rooms rm) room_id = Some room
           \<and> sr_capacity room' = sr_capacity room))"
proof -
  have listed: "capacities_kept rm rm' \<longleftrightarrow>
      (\<forall>room_id room'. (room_id, room') \<in> set (AList.clearjunk (rooms rm')) \<longrightarrow>
         (case map_of (rooms rm) room_id of
            None \<Rightarrow> False
          | Some room \<Rightarrow> sr_capacity room' = sr_capacity room))"
    unfolding capacities_kept_def list_all_iff by auto
  show ?thesis
  proof
    assume "capacities_kept rm rm'"
    with listed have kept: "\<forall>room_id room'.
        (room_id, room') \<in> set (AList.clearjunk (rooms rm')) \<longrightarrow>
          (case map_of (rooms rm) room_id of
             None \<Rightarrow> False
           | Some room \<Rightarrow> sr_capacity room' = sr_capacity room)"
      by simp
    show "\<forall>room_id room'. map_of (rooms rm') room_id = Some room' \<longrightarrow>
        (\<exists>room. map_of (rooms rm) room_id = Some room \<and> sr_capacity room' = sr_capacity room)"
    proof (intro allI impI)
      fix room_id room'
      assume "map_of (rooms rm') room_id = Some room'"
      then have "(room_id, room') \<in> set (AList.clearjunk (rooms rm'))"
        by (simp add: in_clearjunk_iff)
      with kept have "case map_of (rooms rm) room_id of
             None \<Rightarrow> False
           | Some room \<Rightarrow> sr_capacity room' = sr_capacity room"
        by blast
      then show "\<exists>room. map_of (rooms rm) room_id = Some room
          \<and> sr_capacity room' = sr_capacity room"
        by (cases "map_of (rooms rm) room_id") simp_all
    qed
  next
    assume stored: "\<forall>room_id room'. map_of (rooms rm') room_id = Some room' \<longrightarrow>
        (\<exists>room. map_of (rooms rm) room_id = Some room \<and> sr_capacity room' = sr_capacity room)"
    have "\<forall>room_id room'.
        (room_id, room') \<in> set (AList.clearjunk (rooms rm')) \<longrightarrow>
          (case map_of (rooms rm) room_id of
             None \<Rightarrow> False
           | Some room \<Rightarrow> sr_capacity room' = sr_capacity room)"
    proof (intro allI impI)
      fix room_id room'
      assume "(room_id, room') \<in> set (AList.clearjunk (rooms rm'))"
      then have "map_of (rooms rm') room_id = Some room'"
        by (simp add: in_clearjunk_iff)
      with stored obtain room where "map_of (rooms rm) room_id = Some room"
        and "sr_capacity room' = sr_capacity room"
        by blast
      then show "case map_of (rooms rm) room_id of
             None \<Rightarrow> False
           | Some room \<Rightarrow> sr_capacity room' = sr_capacity room"
        by simp
    qed
    with listed show "capacities_kept rm rm'" by simp
  qed
qed

section \<open>The message store\<close>

lemma demo_store_eq:
  "demo_store = \<lparr>messages = [(''m1'', demo_message)], room_messages = [(''r1'', [''m1''])],
     user_messages = []\<rparr>"
  by (simp add: demo_store_def demo_message_def empty_store_def send_message_def truthy_def
      index_append_def notify_message_event_def Let_def)

text \<open>
  C6. A stored message \<open>M\<close> and a user \<open>u\<close> who is not its sender: \<open>edit_message\<close> and
  \<open>delete_message\<close> both return \<open>False\<close>, and the whole message store (the record of
  \<open>M\<close> with its content and edit time, the room and recipient indexes, the presence of
  \<open>M\<close>) and the environment of the callbacks are what they were: no callback runs.
\<close>

theorem C6_non_sender_edit_delete_rejected:
  assumes "map_of (messages mm) mid = Some M"
    and "u \<noteq> msg_sender_id M"
  shows "edit_message cbs now mid new_content u mm env = (False, mm, env)
       \<and> delete_message cbs mid u mm env = (False, mm, env)
       \<and> get_message mm mid = Some M"
  using assms by (auto simp: edit_message_def delete_message_def get_message_def)

theorem C6_witness:
  "map_of (messages demo_store) ''m1'' = Some demo_message
   \<and> ''bob'' \<noteq> msg_sender_id demo_message
   \<and> edit_message [] 20 ''m1'' ''x'' ''bob'' demo_store () = (False, demo_store, ())
   \<and> delete_message [] ''m1'' ''bob'' demo_store () = (False, demo_store, ())
   \<and> get_message demo_store ''m1'' = Some demo_message"
proof -
  have stored: "map_of (messages demo_store) ''m1'' = Some demo_message"
    by (simp add: demo_store_eq)
  have other: "''bob'' \<noteq> msg_sender_id demo_message"
    by (simp add: demo_message_def)
  from C6_non_sender_edit_delete_rejected [OF stored other, of "[]" 20 "''x''" "()"]
  show ?thesis using stored other by simp
qed

text \<open>
  C7. A stored message \<open>M\<close> to which nobody has reacted with \<open>e\<close>: \<open>add_reaction\<close>
  followed by \<open>remove_reaction\<close>, both by \<open>u\<close> with \<open>e\<close>, succeed and leave the
  reactions of \<open>M\<close> without the key \<open>e\<close> (no empty list stays behind); the other keys
  and the other fields of \<open>M\<close> are untouched.
\<close>

theorem C7_add_then_remove_reaction:
  assumes stored: "map_of (messages mm) mid = Some M"
    and unreacted: "map_of (msg_reactions M) e = None \<or> map_of (msg_reactions M) e = Some []"
    and added: "add_reaction cbs mid u e mm env = (ok1, mm1, env1)"
    and removed: "remove_reaction cbs mid u e mm1 env1 = (ok2, mm2, env2)"
  shows "ok1 \<and> ok2
       \<and> (\<exists>M'. get_message mm2 mid = Some M'
              \<and> map_of (msg_reactions M') e = None
              \<and> e \<notin> fst ` set (msg_reactions M')
              \<and> map_of (msg_reactions M') = (map_of (msg_reactions M))(e := None)
              \<and> M'\<lparr>msg_reactions := msg_reactions M\<rparr> = M)"
proof -
  let ?r = "AList.update e [u] (msg_reactions M)"
  let ?M1 = "M\<lparr>msg_reactions := ?r\<rparr>"
  from unreacted have r2: "(let r1 = (if map_of (msg_reactions M) e = None
                    then AList.update e [] (msg_reactions M)
                    else msg_reactions M) in (if u \<notin> set (the (map_of r1 e))
                    then AList.update e (the (map_of r1 e) @ [u]) r1
                    else r1)) = ?r"
    by (auto simp: update_conv')
  from stored added r2 have a: "ok1" "mm1 = mm\<lparr>messages := AList.update mid ?M1 (messages mm)\<rparr>"
    by (auto simp: add_reaction_def Let_def)
  have m1: "map_of (messages mm1) mid = Some ?M1"
    by (simp add: a update_conv')
  let ?M2 = "?M1\<lparr>msg_reactions := AList.delete e (AList.update e [] ?r)\<rparr>"
  from removed m1 have b: "ok2" "mm2 = mm1\<lparr>messages := AList.update mid ?M2 (messages mm1)\<rparr>"
    by (auto simp: remove_reaction_def update_conv' Let_def)
  have m2: "get_message mm2 mid = Some ?M2"
    by (simp add: b get_message_def update_conv')
  have "map_of (msg_reactions ?M2) = (map_of (msg_reactions M))(e := None)"
    by (simp add: delete_conv' update_conv')
  moreover have "e \<notin> fst ` set (msg_reactions ?M2)"
    by (simp add: delete_notin_dom)
  moreover have "map_of (msg_reactions ?M2) e = None"
    by (simp add: delete_conv')
  ultimately show ?thesis using a(1) b(1) m2 by simp
qed

theorem C7_witness:
  "map_of (messages demo_store) ''m1'' = Some demo_message
   \<and> (map_of (msg_reactions demo_message) ''+1'' = None
        \<or> map_of (msg_reactions demo_message) ''+1'' = Some [])
   \<and> (case add_reaction [] ''m1'' ''bob'' ''+1'' demo_store () of
        (ok1, mm1, env1) \<Rightarrow>
          (case remove_reaction [] ''m1'' ''bob'' ''+1'' mm1 env1 of
             (ok2, mm2, env2) \<Rightarrow>
               ok1 \<and> ok2 \<and> get_message mm1 ''m1''
                 = Some (demo_message\<lparr>msg_reactions := [(''+1'', [''bob''])]\<rparr>)
               \<and> get_message mm2 ''m1'' = Some demo_message))"
proof -
  have stored: "map_of (messages demo_store) ''m1'' = Some demo_message"
    by (simp add: demo_store_eq)
  have unreacted: "map_of (msg_reactions demo_message) ''+1'' = None
        \<or> map_of (msg_reactions demo_message) ''+1'' = Some []"
    by (simp add: demo_message_def)
  obtain ok1 mm1 env1 where added:
    "add_reaction [] ''m1'' ''bob'' ''+1'' demo_store () = (ok1, mm1, env1)"
    by (cases "add_reaction [] ''m1'' ''bob'' ''+1'' demo_store ()") auto
  obtain ok2 mm2 env2 where removed:
    "remove_reaction [] ''m1'' ''bob'' ''+1'' mm1 env1 = (ok2, mm2, env2)"
    by (cases "remove_reaction [] ''m1'' ''bob'' ''+1'' mm1 env1") auto
  from C7_add_then_remove_reaction [OF stored unreacted added removed]
  obtain M' where M': "ok1" "ok2" "get_message mm2 ''m1'' = Some M'"
    "map_of (msg_reactions M') ''+1'' = None" by blast
  have mm1: "mm1 = demo_store\<lparr>messages :=
      [(''m1'', demo_message\<lparr>msg_reactions := [(''+1'', [''bob''])]\<rparr>)]\<rparr>"
    using added by (simp add: add_reaction_def demo_store_eq demo_message_def Let_def
        notify_message_event_def)
  have mm2: "mm2 = demo_store"
    using removed by (simp add: remove_reaction_def mm1 demo_store_eq demo_message_def Let_def
        notify_message_event_def)
  show ?thesis
    using stored unreacted added removed M' mm1 mm2
    by (simp add: get_message_def demo_store_eq)
qed

section \<open>The room directory\<close>

lemma set_len_card: "set_len s = card (set s)"
  by (simp add: set_len_def length_remdups_card_conv)

lemma removeAll_Nil_iff: "removeAll u s = [] \<longleftrightarrow> set s \<subseteq> {u}"
  by (induction s) auto

lemma set_len_discard_zero: "set_len (set_discard u s) = 0 \<longleftrightarrow> set s \<subseteq> {u}"
  by (simp add: set_len_def set_discard_def removeAll_Nil_iff)

lemma lobby_rooms_eq:
  "lobby_rooms = \<lparr>rooms = [(''r1'', lobby)], user_rooms = [(''alice'', [''r1''])]\<rparr>"
  by (simp add: lobby_rooms_def created_rooms_def lobby_def lobby_data_def empty_rooms_def
      create_room_def
      join_room_def RoomType_of_def set_add_def set_len_def notify_room_event_def Let_def)

lemma leave_room_not_member:
  assumes "map_of (rooms rm) rid = None
           \<or> (\<exists>room. map_of (rooms rm) rid = Some room \<and> u \<notin> set (sr_current_users room))"
  shows "leave_room cbs rid u rm env = (Inr False, rm, env)"
  using assms by (subst leave_room.simps) auto

lemma leave_room_member:
  assumes room: "map_of (rooms rm) rid = Some room"
    and member: "u \<in> set (sr_current_users room)"
  shows "leave_room cbs rid u rm env =
     (Inr True,
      \<lparr>rooms = (if sr_room_type room = TEMPORARY \<and> set (sr_current_users room) \<subseteq> {u}
                then AList.delete rid (AList.update rid (without_member u room) (rooms rm))
                else AList.update rid (without_member u room) (rooms rm)),
       user_rooms = unindex_room rid u (user_rooms rm)\<rparr>,
      notify_room_event cbs ''user_left'' rid u env)"
proof (cases "sr_room_type room = TEMPORARY \<and> set (sr_current_users room) \<subseteq> {u}")
  case True
  then have empty: "set_discard u (sr_current_users room) = []"
    by (simp add: set_discard_def removeAll_Nil_iff)
  show ?thesis
    using room member True empty
    apply (subst leave_room.simps)
    apply (simp add: Let_def set_len_def without_member_def unindex_room_def split: option.splits)
    apply (subst delete_room.simps, simp add: update_conv' set_list_def)+
    done
next
  case False
  then have "\<not> (sr_room_type room = TEMPORARY \<and> set_len (set_discard u (sr_current_users room)) = 0)"
    by (simp add: set_len_discard_zero)
  then show ?thesis
    using room member False
    apply (subst leave_room.simps)
    apply (auto simp add: Let_def without_member_def unindex_room_def split: option.splits)
    done
qed

lemma leave_each_temporary:
  assumes "map_of (rooms rm) rid = Some room" and "sr_room_type room = TEMPORARY"
    and "distinct us" and "us \<noteq> []" and "set us = set (sr_current_users room)"
  shows "\<exists>rm' env'. leave_each cbs rid us rm env = (None, rm', env')
           \<and> map_of (rooms rm') rid = None"
  using assms
proof (induction us arbitrary: rm room env)
  case Nil
  then show ?case by simp
next
  case (Cons u rest)
  have member: "u \<in> set (sr_current_users room)"
    using Cons.prems(5) by auto
  note left = leave_room_member [OF Cons.prems(1) member, of cbs env]
  show ?case
  proof (cases "rest = []")
    case True
    with Cons.prems(5) have "set (sr_current_users room) \<subseteq> {u}" by auto
    with left Cons.prems(2) True show ?thesis
      by (simp add: delete_conv')
  next
    case False
    from Cons.prems(3,5) False have more: "\<not> set (sr_current_users room) \<subseteq> {u}"
      by (cases rest) auto
    let ?rm = "\<lparr>rooms = AList.update rid (without_member u room) (rooms rm),
                user_rooms = unindex_room rid u (user_rooms rm)\<rparr>"
    have stored: "map_of (rooms ?rm) rid = Some (without_member u room)"
      by (simp add: update_conv')
    have temporary: "sr_room_type (without_member u room) = TEMPORARY"
      using Cons.prems(2) by (simp add: without_member_def)
    have members: "set rest = set (sr_current_users (without_member u room))"
      using Cons.prems(3,5) by (auto simp: without_member_def set_discard_def)
    have "distinct rest" using Cons.prems(3) by simp
    from Cons.IH [OF stored temporary this False members,
        of "notify_room_event cbs ''user_left'' rid u env"]
    obtain rm' env' where
      "leave_each cbs rid rest ?rm (notify_room_event cbs ''user_left'' rid u env) = (None, rm', env')"
      "map_of (rooms rm') rid = None"
      by blast
    with left more show ?thesis by simp
  qed
qed

lemma leave_each_lasting:
  assumes "map_of (rooms rm) rid = Some room" and "sr_room_type room \<noteq> TEMPORARY"
  shows "\<exists>rm' env' room'. leave_each cbs rid us rm env = (None, rm', env')
           \<and> map_of (rooms rm') rid = Some room'
           \<and> set (sr_current_users room') = set (sr_current_users room) - set us"
  using assms
proof (induction us arbitrary: rm room env)
  case Nil
  then show ?case by simp
next
  case (Cons u rest)
  show ?case
  proof (cases "u \<in> set (sr_current_users room)")
    case True
    note left = leave_room_member [OF Cons.prems(1) True, of cbs env]
    let ?rm = "\<lparr>rooms = AList.update rid (without_member u room) (rooms rm),
                user_rooms = unindex_room rid u (user_rooms rm)\<rparr>"
    have stored: "map_of (rooms ?rm) rid = Some (without_member u room)"
      by (simp add: update_conv')
    have lasting: "sr_room_type (without_member u room) \<noteq> TEMPORARY"
      using Cons.prems(2) by (simp add: without_member_def)
    from Cons.IH [OF stored lasting, of "notify_room_event cbs ''user_left'' rid u env"]
    obtain rm' env' room' where
      "leave_each cbs rid rest ?rm (notify_room_event cbs ''user_left'' rid u env) = (None, rm', env')"
      "map_of (rooms rm') rid = Some room'"
      "set (sr_current_users room') = set (sr_current_users (without_member u room)) - set rest"
      by blast
    with left Cons.prems(2) show ?thesis
      by (auto simp: without_member_def set_discard_def)
  next
    case False
    with Cons.prems(1) have "leave_room cbs rid u rm env = (Inr False, rm, env)"
      by (intro leave_room_not_member) auto
    moreover from Cons.IH [OF Cons.prems, of env]
    obtain rm' env' room' where
      "leave_each cbs rid rest rm env = (None, rm', env')"
      "map_of (rooms rm') rid = Some room'"
      "set (sr_current_users room') = set (sr_current_users room) - set rest"
      by blast
    ultimately show ?thesis using False by auto
  qed
qed

text \<open>
  C3. The claim: \<open>delete_room\<close> of an existing room, also of a temporary room with
  members, removes the members, removes the room, returns \<open>True\<close> and does not raise.
  The code: in a temporary room that has a member, the \<open>leave_room\<close> of the last
  member of the snapshot empties the room and deletes it through the nested
  \<open>delete_room\<close>; the outer \<open>delete_room\<close> then executes its own
  \<^verbatim>\<open>del self.rooms[room_id]\<close> on the missing key and raises \<^verbatim>\<open>KeyError\<close>. The room
  is gone afterwards, but the call has raised.
\<close>

theorem C3_delete_temporary_room_raises:
  assumes room: "get_room rm rid = Some room"
    and temporary: "sr_room_type room = TEMPORARY"
    and occupied: "sr_current_users room \<noteq> []"
    and deleted: "delete_room cbs rid rm env = (res, rm', env')"
  shows "res = Inl KeyError \<and> get_room rm' rid = None"
proof -
  have stored: "map_of (rooms rm) rid = Some room"
    using room by (simp add: get_room_def)
  have "distinct (set_list (sr_current_users room))"
    "set_list (sr_current_users room) \<noteq> []"
    "set (set_list (sr_current_users room)) = set (sr_current_users room)"
    using occupied by (simp_all add: set_list_def)
  from leave_each_temporary [OF stored temporary this, of cbs env]
  obtain rm1 env1 where
    "leave_each cbs rid (set_list (sr_current_users room)) rm env = (None, rm1, env1)"
    "map_of (rooms rm1) rid = None"
    by blast
  then have "delete_room cbs rid rm env = (Inl KeyError, rm1, env1)"
    using stored by (subst delete_room.simps) simp
  with deleted \<open>map_of (rooms rm1) rid = None\<close> show ?thesis
    by (simp add: get_room_def)
qed

theorem C3_witness:
  "get_room lobby_rooms ''r1'' = Some lobby
   \<and> sr_room_type lobby = TEMPORARY
   \<and> sr_current_users lobby \<noteq> []
   \<and> fst (delete_room [] ''r1'' lobby_rooms ()) = Inl KeyError
   \<and> get_room (fst (snd (delete_room [] ''r1'' lobby_rooms ()))) ''r1'' = None"
proof -
  have room: "get_room lobby_rooms ''r1'' = Some lobby"
    by (simp add: get_room_def lobby_rooms_eq)
  have temporary: "sr_room_type lobby = TEMPORARY"
    by (simp add: lobby_def)
  have occupied: "sr_current_users lobby \<noteq> []"
    by (simp add: lobby_def)
  have deleted: "delete_room [] ''r1'' lobby_rooms () =
      (fst (delete_room [] ''r1'' lobby_rooms ()),
       fst (snd (delete_room [] ''r1'' lobby_rooms ())),
       snd (snd (delete_room [] ''r1'' lobby_rooms ())))"
    by (simp add: prod_eq_iff)
  from C3_delete_temporary_room_raises [OF room temporary occupied deleted]
  show ?thesis using room temporary occupied by simp
qed


text \<open>
  For comparison: every other existing room (not temporary, or without members) is
  deleted with the result \<open>True\<close>.
\<close>

lemma delete_room_lasting:
  assumes room: "get_room rm rid = Some room"
    and other: "sr_room_type room \<noteq> TEMPORARY \<or> sr_current_users room = []"
    and deleted: "delete_room cbs rid rm env = (res, rm', env')"
  shows "res = Inr True \<and> get_room rm' rid = None"
proof -
  have stored: "map_of (rooms rm) rid = Some room"
    using room by (simp add: get_room_def)
  have "\<exists>rm1 env1 room1. leave_each cbs rid (set_list (sr_current_users room)) rm env
          = (None, rm1, env1) \<and> map_of (rooms rm1) rid = Some room1"
  proof (cases "sr_current_users room = []")
    case True
    with stored have
      "leave_each cbs rid (set_list (sr_current_users room)) rm env = (None, rm, env)"
      "map_of (rooms rm) rid = Some room"
      by (simp_all add: set_list_def)
    then show ?thesis by simp
  next
    case False
    with other have "sr_room_type room \<noteq> TEMPORARY" by simp
    from leave_each_lasting [OF stored this, of cbs "set_list (sr_current_users room)" env]
    obtain rm1 env1 room1 where
      "leave_each cbs rid (set_list (sr_current_users room)) rm env = (None, rm1, env1)"
      "map_of (rooms rm1) rid = Some room1"
      by blast
    then show ?thesis by simp
  qed
  then obtain rm1 env1 room1 where
    "leave_each cbs rid (set_list (sr_current_users room)) rm env = (None, rm1, env1)"
    "map_of (rooms rm1) rid = Some room1"
    by blast
  then have "delete_room cbs rid rm env
      = (Inr True, rm1\<lparr>rooms := AList.delete rid (rooms rm1)\<rparr>, env1)"
    using stored by (subst delete_room.simps) simp
  with deleted show ?thesis
    by (auto simp: get_room_def delete_conv')
qed

text \<open>
  C4. A member \<open>u\<close> of a room leaves it: \<open>leave_room\<close> returns \<open>True\<close>; when the room
  is temporary and \<open>u\<close> was its only member, the room is no longer in the directory
  (\<open>get_room\<close> gives \<open>None\<close>); in every other case (a room of another type, or a
  temporary room with members left) the room is still there, without \<open>u\<close> among its
  members and moderators.
\<close>

theorem C4_leave_temporary_room:
  assumes room: "get_room rm rid = Some room"
    and member: "u \<in> set (sr_current_users room)"
    and left: "leave_room cbs rid u rm env = (res, rm', env')"
  shows "res = Inr True
       \<and> get_room rm' rid =
           (if sr_room_type room = TEMPORARY \<and> set (sr_current_users room) = {u} then None
            else Some (room\<lparr>sr_current_users := set_discard u (sr_current_users room),
                            sr_moderators := set_discard u (sr_moderators room)\<rparr>))"
proof -
  have stored: "map_of (rooms rm) rid = Some room"
    using room by (simp add: get_room_def)
  note result = leave_room_member [OF stored member, of cbs env]
  show ?thesis
  proof (cases "sr_room_type room = TEMPORARY \<and> set (sr_current_users room) = {u}")
    case True
    then have "sr_room_type room = TEMPORARY \<and> set (sr_current_users room) \<subseteq> {u}"
      by simp
    with result left have "rooms rm' =
        AList.delete rid (AList.update rid (without_member u room) (rooms rm))"
      by auto
    moreover from result left have "res = Inr True" by simp
    ultimately show ?thesis using True by (simp add: get_room_def delete_conv')
  next
    case False
    with member have "\<not> (sr_room_type room = TEMPORARY \<and> set (sr_current_users room) \<subseteq> {u})"
      by blast
    with result left have "rooms rm' = AList.update rid (without_member u room) (rooms rm)"
      by auto
    moreover from result left have "res = Inr True" by simp
    ultimately show ?thesis
      using False by (simp add: get_room_def update_conv' without_member_def)
  qed
qed

theorem C4_witness:
  "get_room lobby_rooms ''r1'' = Some lobby
   \<and> ''alice'' \<in> set (sr_current_users lobby)
   \<and> sr_room_type lobby = TEMPORARY \<and> set (sr_current_users lobby) = {''alice''}
   \<and> fst (leave_room [] ''r1'' ''alice'' lobby_rooms ()) = Inr True
   \<and> get_room (fst (snd (leave_room [] ''r1'' ''alice'' lobby_rooms ()))) ''r1'' = None"
proof -
  have room: "get_room lobby_rooms ''r1'' = Some lobby"
    by (simp add: get_room_def lobby_rooms_eq)
  have member: "''alice'' \<in> set (sr_current_users lobby)"
    by (simp add: lobby_def)
  have last: "sr_room_type lobby = TEMPORARY \<and> set (sr_current_users lobby) = {''alice''}"
    by (simp add: lobby_def)
  have left: "leave_room [] ''r1'' ''alice'' lobby_rooms () =
      (fst (leave_room [] ''r1'' ''alice'' lobby_rooms ()),
       fst (snd (leave_room [] ''r1'' ''alice'' lobby_rooms ())),
       snd (snd (leave_room [] ''r1'' ''alice'' lobby_rooms ())))"
    by (simp add: prod_eq_iff)
  from C4_leave_temporary_room [OF room member left]
  show ?thesis using room member last by simp
qed

subsection \<open>Capacity\<close>

lemma set_len_add: "set_len (set_add u s) \<le> Suc (set_len s)"
  by (simp add: set_len_card set_add_def card_insert_if)

lemma set_len_discard: "set_len (set_discard u s) \<le> set_len s"
  by (simp add: set_len_card set_discard_def card_Diff1_le)

lemma capacities_kept_refl: "capacities_kept rm rm"
  by (simp add: capacities_kept_iff)

lemma capacities_kept_trans:
  "capacities_kept rm rm1 \<Longrightarrow> capacities_kept rm1 rm2 \<Longrightarrow> capacities_kept rm rm2"
  unfolding capacities_kept_iff by fastforce

lemma join_room_result:
  assumes "map_of (rooms rm) rid = Some room"
  shows "join_room cbs rid u rm env =
     (if sr_capacity room \<le> int (set_len (sr_current_users room)) then (False, rm, env)
      else (True,
            \<lparr>rooms = AList.update rid
                (room\<lparr>sr_current_users := set_add u (sr_current_users room)\<rparr>) (rooms rm),
             user_rooms = AList.update u
                (set_add rid (case map_of (user_rooms rm) u of None \<Rightarrow> [] | Some rs \<Rightarrow> rs))
                (user_rooms rm)\<rparr>,
            notify_room_event cbs ''user_joined'' rid u env))"
  using assms by (simp add: join_room_def Let_def)

lemma join_room_unknown:
  "map_of (rooms rm) rid = None \<Longrightarrow> join_room cbs rid u rm env = (False, rm, env)"
  by (simp add: join_room_def)

lemma join_room_invariants:
  assumes "join_room cbs rid u rm env = (ok, rm', env')"
  shows "capacities_kept rm rm' \<and> (capacity_respected rm \<longrightarrow> capacity_respected rm')"
proof (cases "map_of (rooms rm) rid")
  case None
  with assms show ?thesis
    by (simp add: join_room_unknown capacities_kept_refl)
next
  case (Some room)
  show ?thesis
  proof (cases "sr_capacity room \<le> int (set_len (sr_current_users room))")
    case True
    with assms Some show ?thesis
      by (simp add: join_room_result capacities_kept_refl)
  next
    case False
    with assms Some have rooms': "rooms rm' = AList.update rid
        (room\<lparr>sr_current_users := set_add u (sr_current_users room)\<rparr>) (rooms rm)"
      by (auto simp: join_room_result)
    have bound: "int (set_len (set_add u (sr_current_users room))) \<le> sr_capacity room"
      using False set_len_add [of u "sr_current_users room"] by linarith
    show ?thesis
      using Some bound
      by (auto simp: rooms' capacities_kept_iff capacity_respected_iff update_conv'
          split: if_splits)
  qed
qed

lemma leave_room_invariants:
  assumes "leave_room cbs rid u rm env = (res, rm', env')"
  shows "capacities_kept rm rm' \<and> (capacity_respected rm \<longrightarrow> capacity_respected rm')"
proof (cases "\<exists>room. map_of (rooms rm) rid = Some room \<and> u \<in> set (sr_current_users room)")
  case False
  then have "leave_room cbs rid u rm env = (Inr False, rm, env)"
    by (intro leave_room_not_member) (cases "map_of (rooms rm) rid", auto)
  with assms show ?thesis
    by (simp add: capacities_kept_refl)
next
  case True
  then obtain room where room: "map_of (rooms rm) rid = Some room"
    and member: "u \<in> set (sr_current_users room)"
    by blast
  have bound: "set_len (sr_current_users (without_member u room)) \<le> set_len (sr_current_users room)"
    by (simp add: without_member_def set_len_discard)
  have cap: "sr_capacity (without_member u room) = sr_capacity room"
    by (simp add: without_member_def)
  have fits: "int (set_len (sr_current_users (without_member u room)))
      \<le> sr_capacity (without_member u room)" if "capacity_respected rm"
  proof -
    from that room have "int (set_len (sr_current_users room)) \<le> sr_capacity room"
      by (simp add: capacity_respected_iff)
    with bound cap show ?thesis by linarith
  qed
  from leave_room_member [OF room member, of cbs env] assms
  have "rooms rm' = AList.delete rid (AList.update rid (without_member u room) (rooms rm))
      \<or> rooms rm' = AList.update rid (without_member u room) (rooms rm)"
    by (auto split: if_splits)
  then show ?thesis
  proof
    assume "rooms rm' = AList.delete rid (AList.update rid (without_member u room) (rooms rm))"
    then have "map_of (rooms rm') = (map_of (rooms rm))(rid := None)"
      by (simp add: delete_conv' update_conv')
    then show ?thesis
      by (auto simp: capacities_kept_iff capacity_respected_iff split: if_splits)
  next
    assume "rooms rm' = AList.update rid (without_member u room) (rooms rm)"
    then have "map_of (rooms rm') = (map_of (rooms rm))(rid \<mapsto> without_member u room)"
      by (simp add: update_conv')
    moreover have "capacity_respected rm'" if "capacity_respected rm"
      unfolding capacity_respected_iff
    proof (intro allI impI)
      fix room_id room'
      assume "map_of (rooms rm') room_id = Some room'"
      with calculation have "(room_id = rid \<and> room' = without_member u room)
          \<or> map_of (rooms rm) room_id = Some room'"
        by (auto split: if_splits)
      with fits [OF that] that
      show "int (set_len (sr_current_users room')) \<le> sr_capacity room'"
        by (auto simp: capacity_respected_iff)
    qed
    ultimately show ?thesis
      using room cap
      by (auto simp: capacities_kept_iff split: if_splits)
  qed
qed

lemma create_room_stored:
  assumes "create_room generated now room_data rm = (Inr room, rm')"
  shows "rm' = rm\<lparr>rooms := AList.update (sr_room_id room) room (rooms rm)\<rparr>
       \<and> sr_current_users room = []
       \<and> sr_capacity room = (case rd_capacity room_data of None \<Rightarrow> 50 | Some c \<Rightarrow> c)"
proof (cases "rd_name room_data")
  case None
  with assms show ?thesis by (simp add: create_room_def Let_def)
next
  case name: (Some name)
  show ?thesis
  proof (cases "RoomType_of (case rd_room_type room_data of None \<Rightarrow> ''public'' | Some t \<Rightarrow> t)")
    case None
    with assms name show ?thesis by (simp add: create_room_def Let_def)
  next
    case type: (Some room_type)
    show ?thesis
    proof (cases "rd_owner_id room_data")
      case None
      with assms name type show ?thesis by (simp add: create_room_def Let_def)
    next
      case (Some owner)
      with assms name type show ?thesis by (auto simp: create_room_def Let_def)
    qed
  qed
qed

lemma create_room_failed:
  assumes "create_room generated now room_data rm = (Inl err, rm')"
  shows "rm' = rm"
proof (cases "rd_name room_data")
  case None
  with assms show ?thesis by (simp add: create_room_def Let_def)
next
  case name: (Some name)
  show ?thesis
  proof (cases "RoomType_of (case rd_room_type room_data of None \<Rightarrow> ''public'' | Some t \<Rightarrow> t)")
    case None
    with assms name show ?thesis by (simp add: create_room_def Let_def)
  next
    case type: (Some room_type)
    show ?thesis
    proof (cases "rd_owner_id room_data")
      case None
      with assms name type show ?thesis by (simp add: create_room_def Let_def)
    next
      case (Some owner)
      with assms name type show ?thesis by (simp add: create_room_def Let_def)
    qed
  qed
qed

lemma create_room_respected:
  assumes respected: "capacity_respected rm"
    and fit: "case rd_capacity room_data of None \<Rightarrow> True | Some c \<Rightarrow> 0 \<le> c"
  shows "capacity_respected (snd (create_room generated now room_data rm))"
proof -
  obtain res rm' where created: "create_room generated now room_data rm = (res, rm')"
    by (cases "create_room generated now room_data rm") auto
  show ?thesis
  proof (cases res)
    case (Inl err)
    with created create_room_failed [of generated now room_data rm err rm'] respected
    show ?thesis by simp
  next
    case (Inr room)
    with created create_room_stored [of generated now room_data rm room rm']
    have rm': "rm' = rm\<lparr>rooms := AList.update (sr_room_id room) room (rooms rm)\<rparr>"
      and members: "sr_current_users room = []"
      and capacity: "sr_capacity room = (case rd_capacity room_data of None \<Rightarrow> 50 | Some c \<Rightarrow> c)"
      by simp_all
    from fit capacity have "0 \<le> sr_capacity room"
      by (cases "rd_capacity room_data") simp_all
    with members have "int (set_len (sr_current_users room)) \<le> sr_capacity room"
      by (simp add: set_len_def)
    with respected have "capacity_respected rm'"
      unfolding capacity_respected_iff rm' by (simp add: update_conv')
    with created show ?thesis by simp
  qed
qed

lemma empty_rooms_respected: "capacity_respected empty_rooms"
  by (simp add: capacity_respected_def empty_rooms_def dict_values_def)

lemma run_room_ops_respected:
  assumes "list_all capacity_not_negative ops" and "capacity_respected rm"
  shows "capacity_respected (fst (run_room_ops cbs ops rm env))"
  using assms
proof (induction ops arbitrary: rm env)
  case Nil
  then show ?case by simp
next
  case (Cons op ops)
  show ?case
  proof (cases op)
    case (Create generated now room_data)
    with Cons.prems have "capacity_respected (snd (create_room generated now room_data rm))"
      by (simp add: create_room_respected)
    with Cons.IH [of "snd (create_room generated now room_data rm)" env] Cons.prems Create
    show ?thesis by simp
  next
    case (Join rid u)
    obtain ok rm1 env1 where step: "join_room cbs rid u rm env = (ok, rm1, env1)"
      by (cases "join_room cbs rid u rm env") auto
    from join_room_invariants [OF step] Cons.prems have "capacity_respected rm1" by simp
    with Cons.IH [of rm1 env1] Cons.prems Join step show ?thesis by simp
  next
    case (Leave rid u)
    obtain res rm1 env1 where step: "leave_room cbs rid u rm env = (res, rm1, env1)"
      by (cases "leave_room cbs rid u rm env") auto
    from leave_room_invariants [OF step] Cons.prems have "capacity_respected rm1" by simp
    with Cons.IH [of rm1 env1] Cons.prems Leave step show ?thesis by simp
  qed
qed

lemma created_rooms_eq:
  "created_rooms = \<lparr>rooms = [(''r1'', lobby\<lparr>sr_current_users := []\<rparr>)], user_rooms = []\<rparr>"
  by (simp add: created_rooms_def lobby_def lobby_data_def empty_rooms_def create_room_def
      RoomType_of_def set_add_def Let_def)

lemma cellar_rooms_eq: "cellar_rooms = \<lparr>rooms = [(''r0'', cellar)], user_rooms = []\<rparr>"
  by (simp add: cellar_rooms_def cellar_def cellar_data_def empty_rooms_def create_room_def
      RoomType_of_def set_add_def Let_def)

lemma full_hall_eq:
  "full_hall = \<lparr>rooms = [(''r2'', hall)],
     user_rooms = [(''alice'', [''r2'']), (''bob'', [''r2''])]\<rparr>"
  by (simp add: full_hall_def hall_ops_def hall_def hall_data_def empty_rooms_def
      create_room_def join_room_def RoomType_of_def set_add_def set_len_def
      notify_room_event_def Let_def)

lemma hall_ops_run:
  "run_room_ops [] hall_ops empty_rooms () =
     (\<lparr>rooms = [(''r2'', hall\<lparr>sr_current_users := [''bob''], sr_moderators := []\<rparr>)],
       user_rooms = [(''alice'', []), (''bob'', [''r2''])]\<rparr>, ())"
proof -
  have "run_room_ops [] hall_ops empty_rooms () =
      run_room_ops [] [Join ''r2'' ''carol'', Leave ''r2'' ''alice''] full_hall ()"
    by (simp add: full_hall_def hall_ops_def prod_eq_iff split: prod.splits)
  moreover have "join_room [] ''r2'' ''carol'' full_hall () = (False, full_hall, ())"
    by (simp add: full_hall_eq join_room_def hall_def set_len_def)
  moreover have "leave_room [] ''r2'' ''alice'' full_hall () =
      (Inr True,
       \<lparr>rooms = [(''r2'', hall\<lparr>sr_current_users := [''bob''], sr_moderators := []\<rparr>)],
         user_rooms = [(''alice'', []), (''bob'', [''r2''])]\<rparr>, ())"
    using leave_room_member [of full_hall "''r2''" hall "''alice''" "[]" "()"]
    by (simp add: full_hall_eq hall_def without_member_def unindex_room_def set_discard_def
        notify_room_event_def)
  ultimately show ?thesis by simp
qed

text \<open>
  C2. The claim: \<open>join_room\<close> returns false whenever the member count equals or exceeds
  the capacity and otherwise adds the user, so that the member count is at most the
  capacity in every reachable state. The code: the first half holds for every room;
  but \<open>create_room\<close> takes any integer as the capacity, and a room created with the
  capacity -1 holds 0 members, more than its capacity. \<open>join_room\<close> then refuses every
  user, and the room stays that way.
\<close>

theorem C2_negative_capacity:
  "run_room_ops [] [Create ''g0'' 1 cellar_data, Join ''r0'' ''alice''] empty_rooms () =
     (cellar_rooms, ())
   \<and> get_room cellar_rooms ''r0'' = Some cellar
   \<and> set_len (sr_current_users cellar) = 0
   \<and> sr_capacity cellar = - 1
   \<and> \<not> capacity_respected cellar_rooms"
  by (simp add: cellar_rooms_eq cellar_rooms_def [symmetric] get_room_def join_room_def
      capacity_respected_def dict_values_def cellar_def set_len_def)

text \<open>
  C2, amended. \<open>join_room\<close> on an existing room succeeds exactly when the room holds
  fewer members than its capacity: a full or over-full room gives \<open>False\<close> with the
  state unchanged, otherwise the user is added to the members. \<open>join_room\<close> and
  \<open>leave_room\<close> leave the capacity of every room as it was. Hence, when every room is
  created with a capacity that is not negative, every state reached from the empty
  directory by calls of \<open>create_room\<close>, \<open>join_room\<close> and \<open>leave_room\<close> has at most as
  many members in each room as its capacity (the states in between are reached by the
  prefixes of the sequence).
\<close>

theorem C2_join_room_capacity:
  assumes room: "get_room rm rid = Some room"
    and joined: "join_room cbs rid u rm env = (ok, rm1, env1)"
  shows "ok = (int (set_len (sr_current_users room)) < sr_capacity room)
       \<and> (if ok
          then get_room rm1 rid =
                 Some (room\<lparr>sr_current_users := set_add u (sr_current_users room)\<rparr>)
               \<and> u \<in> set (sr_current_users (the (get_room rm1 rid)))
          else rm1 = rm \<and> env1 = env)
       \<and> capacities_kept rm rm1
       \<and> (\<forall>v. capacities_kept rm (fst (snd (leave_room cbs rid v rm env))))
       \<and> (\<forall>ops env0. list_all capacity_not_negative ops \<longrightarrow>
             capacity_respected (fst (run_room_ops cbs ops empty_rooms env0)))"
proof -
  have stored: "map_of (rooms rm) rid = Some room"
    using room by (simp add: get_room_def)
  note result = join_room_result [OF stored, of cbs u env]
  have "ok = (int (set_len (sr_current_users room)) < sr_capacity room)"
    using result joined by (auto split: if_splits)
  moreover have "if ok
          then get_room rm1 rid =
                 Some (room\<lparr>sr_current_users := set_add u (sr_current_users room)\<rparr>)
               \<and> u \<in> set (sr_current_users (the (get_room rm1 rid)))
          else rm1 = rm \<and> env1 = env"
    using result joined
    by (auto simp: get_room_def update_conv' set_add_def split: if_splits)
  moreover have "capacities_kept rm rm1"
    using join_room_invariants [OF joined] by simp
  moreover have "capacities_kept rm (fst (snd (leave_room cbs rid v rm env)))" for v
    using leave_room_invariants [of cbs rid v rm env "fst (leave_room cbs rid v rm env)"
        "fst (snd (leave_room cbs rid v rm env))" "snd (snd (leave_room cbs rid v rm env))"]
    by simp
  moreover have "capacity_respected (fst (run_room_ops cbs ops empty_rooms env0))"
    if "list_all capacity_not_negative ops" for ops env0
    using run_room_ops_respected [OF that empty_rooms_respected] .
  ultimately show ?thesis by simp
qed

theorem C2_witness:
  "get_room cellar_rooms ''r0'' = Some cellar
   \<and> join_room [] ''r0'' ''alice'' cellar_rooms () = (False, cellar_rooms, ())
   \<and> get_room full_hall ''r2'' = Some hall
   \<and> join_room [] ''r2'' ''carol'' full_hall () = (False, full_hall, ())
   \<and> get_room created_rooms ''r1'' = Some (lobby\<lparr>sr_current_users := []\<rparr>)
   \<and> join_room [] ''r1'' ''alice'' created_rooms () = (True, lobby_rooms, ())
   \<and> get_room lobby_rooms ''r1'' = Some lobby
   \<and> capacities_kept created_rooms lobby_rooms
   \<and> list_all capacity_not_negative hall_ops
   \<and> get_room (fst (run_room_ops [] hall_ops empty_rooms ())) ''r2'' =
       Some (hall\<lparr>sr_current_users := [''bob''], sr_moderators := []\<rparr>)
   \<and> capacity_respected (fst (run_room_ops [] hall_ops empty_rooms ()))"
proof -
  have room0: "get_room cellar_rooms ''r0'' = Some cellar"
    by (simp add: get_room_def cellar_rooms_eq)
  have joined0: "join_room [] ''r0'' ''alice'' cellar_rooms ()
      = (fst (join_room [] ''r0'' ''alice'' cellar_rooms ()),
         fst (snd (join_room [] ''r0'' ''alice'' cellar_rooms ())), ())"
    by (simp add: prod_eq_iff)
  have room1: "get_room full_hall ''r2'' = Some hall"
    by (simp add: get_room_def full_hall_eq)
  have joined1: "join_room [] ''r2'' ''carol'' full_hall ()
      = (fst (join_room [] ''r2'' ''carol'' full_hall ()),
         fst (snd (join_room [] ''r2'' ''carol'' full_hall ())), ())"
    by (simp add: prod_eq_iff)
  have room2: "get_room created_rooms ''r1'' = Some (lobby\<lparr>sr_current_users := []\<rparr>)"
    by (simp add: get_room_def created_rooms_eq)
  have joined2: "join_room [] ''r1'' ''alice'' created_rooms () = (True, lobby_rooms, ())"
    by (simp add: lobby_rooms_eq created_rooms_eq join_room_def lobby_def set_len_def
        set_add_def notify_room_event_def Let_def)
  have fit: "list_all capacity_not_negative hall_ops"
    by (simp add: hall_ops_def hall_data_def)
  note over = C2_join_room_capacity [OF room0 joined0]
  note full = C2_join_room_capacity [OF room1 joined1]
  note free = C2_join_room_capacity [OF room2 joined2]
  from over have "\<not> fst (join_room [] ''r0'' ''alice'' cellar_rooms ())"
    by (simp add: cellar_def set_len_def)
  with over have refused0: "join_room [] ''r0'' ''alice'' cellar_rooms () = (False, cellar_rooms, ())"
    by (simp add: prod_eq_iff)
  from full have "\<not> fst (join_room [] ''r2'' ''carol'' full_hall ())"
    by (simp add: hall_def set_len_def)
  with full have refused1: "join_room [] ''r2'' ''carol'' full_hall () = (False, full_hall, ())"
    by (simp add: prod_eq_iff)
  from free have stored: "get_room lobby_rooms ''r1'' = Some lobby"
    by (simp add: lobby_def set_add_def)
  from free have kept: "capacities_kept created_rooms lobby_rooms"
    by simp
  from free fit have "capacity_respected (fst (run_room_ops [] hall_ops empty_rooms ()))"
    by blast
  with room0 refused0 room1 refused1 room2 joined2 stored kept fit show ?thesis
    by (simp add: hall_ops_run get_room_def)
qed

section \<open>The user directory\<close>

lemma sessions_of_Nil_iff:
  "sessions_of um u = [] \<longleftrightarrow>
     (\<forall>k s. map_of (active_sessions um) k = Some s \<longrightarrow> ss_user_id s \<noteq> u)"
  by (auto simp: sessions_of_def filter_empty_conv Ball_def dict_values_iff)

lemma has_other_session_iff:
  "has_other_session um sid u \<longleftrightarrow>
     (\<exists>k s. k \<noteq> sid \<and> map_of (active_sessions um) k = Some s \<and> ss_user_id s = u)"
  by (auto simp: has_other_session_def in_clearjunk_iff)

lemma sessions_of_delete:
  "sessions_of (um\<lparr>active_sessions := AList.delete sid (active_sessions um)\<rparr>) u = []
     \<longleftrightarrow> \<not> has_other_session um sid u"
  by (auto simp: sessions_of_Nil_iff has_other_session_iff delete_conv' split: if_splits)

lemma set_user_status_known:
  assumes "map_of (users um) u = Some profile"
  shows "set_user_status cbs now u status um env =
     (True,
      um\<lparr>users := AList.update u (profile\<lparr>up_status := status, up_last_active := now\<rparr>) (users um)\<rparr>,
      if up_status profile \<noteq> status
      then notify_presence_change cbs u
             (um\<lparr>users := AList.update u (profile\<lparr>up_status := status, up_last_active := now\<rparr>)
                    (users um)\<rparr>) env
      else env)"
  using assms by (simp add: set_user_status_def Let_def)


text \<open>
  C8. A registered user \<open>u\<close> and one of the sessions of \<open>u\<close>: \<open>end_session\<close> succeeds
  and removes the session; when no other session of \<open>u\<close> is left, the status of \<open>u\<close>
  becomes offline; when another session of \<open>u\<close> remains, the profile of \<open>u\<close>, and so
  the status, is unchanged.
\<close>

theorem C8_end_session_status:
  assumes session: "map_of (active_sessions um) sid = Some session"
    and owner: "ss_user_id session = u"
    and user: "get_user um u = Some profile"
    and ended: "end_session cbs now sid um env = (ok, um', env')"
  shows "ok
       \<and> map_of (active_sessions um') sid = None
       \<and> get_user um' u =
           Some (if has_other_session um sid u then profile
                 else profile\<lparr>up_status := OFFLINE, up_last_active := now\<rparr>)
       \<and> up_status (the (get_user um' u)) =
           (if has_other_session um sid u then up_status profile else OFFLINE)"
proof -
  let ?um1 = "um\<lparr>active_sessions := AList.delete sid (active_sessions um)\<rparr>"
  have known: "map_of (users ?um1) u = Some profile"
    using user by (simp add: get_user_def)
  show ?thesis
  proof (cases "has_other_session um sid u")
    case True
    then have "sessions_of ?um1 u \<noteq> []"
      by (simp add: sessions_of_delete)
    with session owner ended have "ok" "um' = ?um1"
      by (auto simp: end_session_def Let_def)
    with True user show ?thesis
      by (simp add: get_user_def delete_conv')
  next
    case False
    then have none: "sessions_of ?um1 u = []"
      by (simp add: sessions_of_delete)
    from session owner ended none
    have "(ok, um', env') =
        (case set_user_status cbs now u OFFLINE ?um1 env of (_, um2, env2) \<Rightarrow> (True, um2, env2))"
      by (simp add: end_session_def Let_def)
    then have "ok" "um' = ?um1\<lparr>users := AList.update u
        (profile\<lparr>up_status := OFFLINE, up_last_active := now\<rparr>) (users ?um1)\<rparr>"
      by (simp_all add: set_user_status_known [OF known])
    with False show ?thesis
      by (simp add: get_user_def delete_conv' update_conv')
  qed
qed

lemma alice_users_eq:
  "alice_users = \<lparr>users = [(''alice'', alice_profile)],
     active_sessions = [(''s1'', alice_session 1)]\<rparr>"
  by (simp add: alice_users_def alice_data_def alice_profile_def alice_session_def
      empty_users_def create_user_def create_session_def set_user_status_def Let_def)

lemma alice_twice_eq:
  "alice_twice = \<lparr>users = [(''alice'', alice_profile\<lparr>up_last_active := 2\<rparr>)],
     active_sessions = [(''s1'', alice_session 1), (''s2'', alice_session 2)]\<rparr>"
  by (simp add: alice_twice_def alice_users_eq alice_profile_def alice_session_def
      create_session_def set_user_status_def Let_def)

theorem C8_witness:
  "map_of (active_sessions alice_users) ''s1'' = Some (alice_session 1)
   \<and> ss_user_id (alice_session 1) = ''alice''
   \<and> get_user alice_users ''alice'' = Some alice_profile
   \<and> \<not> has_other_session alice_users ''s1'' ''alice''
   \<and> up_status (the (get_user (fst (snd (end_session [] 3 ''s1'' alice_users ()))) ''alice''))
       = OFFLINE
   \<and> map_of (active_sessions alice_twice) ''s2'' = Some (alice_session 2)
   \<and> ss_user_id (alice_session 2) = ''alice''
   \<and> get_user alice_twice ''alice'' = Some (alice_profile\<lparr>up_last_active := 2\<rparr>)
   \<and> has_other_session alice_twice ''s2'' ''alice''
   \<and> up_status (the (get_user (fst (snd (end_session [] 3 ''s2'' alice_twice ()))) ''alice''))
       = ONLINE"
proof -
  have session1: "map_of (active_sessions alice_users) ''s1'' = Some (alice_session 1)"
    by (simp add: alice_users_eq)
  have owner1: "ss_user_id (alice_session 1) = ''alice''"
    by (simp add: alice_session_def)
  have user1: "get_user alice_users ''alice'' = Some alice_profile"
    by (simp add: get_user_def alice_users_eq)
  have last1: "\<not> has_other_session alice_users ''s1'' ''alice''"
    by (simp add: has_other_session_def alice_users_eq)
  have ended1: "end_session [] 3 ''s1'' alice_users () =
      (fst (end_session [] 3 ''s1'' alice_users ()),
       fst (snd (end_session [] 3 ''s1'' alice_users ())), ())"
    by (simp add: prod_eq_iff)
  have session2: "map_of (active_sessions alice_twice) ''s2'' = Some (alice_session 2)"
    by (simp add: alice_twice_eq)
  have owner2: "ss_user_id (alice_session 2) = ''alice''"
    by (simp add: alice_session_def)
  have user2: "get_user alice_twice ''alice'' = Some (alice_profile\<lparr>up_last_active := 2\<rparr>)"
    by (simp add: get_user_def alice_twice_eq)
  have other2: "has_other_session alice_twice ''s2'' ''alice''"
    by (simp add: has_other_session_def alice_twice_eq alice_session_def)
  have ended2: "end_session [] 3 ''s2'' alice_twice () =
      (fst (end_session [] 3 ''s2'' alice_twice ()),
       fst (snd (end_session [] 3 ''s2'' alice_twice ())), ())"
    by (simp add: prod_eq_iff)
  note only = C8_end_session_status [OF session1 owner1 user1 ended1]
  note more = C8_end_session_status [OF session2 owner2 user2 ended2]
  from only last1 have "up_status (the (get_user (fst (snd (end_session [] 3 ''s1''
      alice_users ()))) ''alice'')) = OFFLINE"
    by simp
  moreover from more other2 have "up_status (the (get_user (fst (snd (end_session [] 3 ''s2''
      alice_twice ()))) ''alice'')) = ONLINE"
    by (simp add: alice_profile_def)
  ultimately show ?thesis
    using session1 owner1 user1 last1 session2 owner2 user2 other2 by simp
qed




subsection \<open>Presence\<close>



















section \<open>The connection graph\<close>
























section \<open>The facade and the event bus\<close>

text \<open>
  C5. The claim: after bob has subscribed to room \<open>R\<close> and alice has sent a message to
  \<open>R\<close> through the facade, \<open>get_recent_events\<close> for bob holds an event of type
  \<^verbatim>\<open>message_sent\<close> with room \<open>R\<close>. The code: \<open>send_message\<close> notifies with the type
  \<^verbatim>\<open>message_sent\<close> and the callback of the facade puts \<^verbatim>\<open>message_\<close> in front of
  it, so the one event that bob sees has the type \<^verbatim>\<open>message_message_sent\<close>; no event
  of type \<^verbatim>\<open>message_sent\<close> exists. (The room callback gets \<^verbatim>\<open>user_joined\<close> and
  makes \<^verbatim>\<open>room_user_joined\<close> of it.) The event reaches bob through the room when
  the room identifier is not the empty string.
\<close>

theorem C5_message_event_type:
  "get_recent_events
     (realtime_manager (snd (platform_send_message mid eid now event_now
        (room_message alice R text) (subscribed_platform bob R))))
     bob 10
   = (if R \<noteq> [] \<or> alice = bob
      then [\<lparr>ev_event_id = eid, ev_event_type = ''message_message_sent'', ev_user_id = alice,
             ev_room_id = Some R,
             ev_data = [(''message_id'', mid), (''content'', text), (''message_type'', ''text'')],
             ev_timestamp = event_now\<rparr>]
      else [])
   \<and> filter (\<lambda>e. ev_event_type e = ''message_sent'')
       (get_recent_events
          (realtime_manager (snd (platform_send_message mid eid now event_now
             (room_message alice R text) (subscribed_platform bob R))))
          bob 10) = []"
  by (simp add: platform_send_message_def send_message_def notify_message_event_def
      on_message_event_def emit_event_def new_platform_def subscribed_platform_def
      room_message_def subscribe_to_room_def get_recent_events_def event_relevant_def
      truthy_def set_add_def index_append_def Let_def)

theorem C5_scenario:
  "get_recent_events
     (realtime_manager (snd (platform_send_message ''m1'' ''e1'' 7 8
        (room_message ''alice'' ''R'' ''hello'') (subscribed_platform ''bob'' ''R''))))
     ''bob'' 10
   = [\<lparr>ev_event_id = ''e1'', ev_event_type = ''message_message_sent'', ev_user_id = ''alice'',
       ev_room_id = Some ''R'',
       ev_data = [(''message_id'', ''m1''), (''content'', ''hello''),
                  (''message_type'', ''text'')],
       ev_timestamp = 8\<rparr>]"
  using C5_message_event_type [of "''m1''" "''e1''" 7 8 "''alice''" "''R''" "''hello''" "''bob''"]
  by simp

end
